theory Spec2Isabelle
  imports Complex_Main
begin

section \<open>Number model\<close>

text \<open>
  The source computes with C++ \<open>float\<close> and \<open>double\<close> values and with \<open>int\<close>. Numbers
  are of type \<^typ>\<open>real\<close> here, and the definitions come in two readings.

  \<^item> In the exact reading every arithmetic operation yields its mathematical result. The
    filter, the setters and the plain \<open>updateEnvelopePosition\<close> and
    \<open>setRecoveryTimeValue\<close> are written so; the statements proved of them are identities
    between the expressions of the source and frame properties.
  \<^item> In the rounded reading every \<open>float\<close> operation, every conversion to \<open>float\<close> and
    every \<open>double\<close> operation is followed by the rounding of its format:
    \<open>float32_round\<close> and \<open>float64_round\<close> round to the nearest number with a 24-bit
    and a 53-bit significand, ties to even, with gradual underflow. Each operation is
    rounded on its own (no fused multiply-add, no wider intermediate format), and \<open>pow\<close>
    is taken to return the \<open>double\<close> nearest to the exact power. \<open>getEnvelopePosition\<close>,
    \<open>setRecoveryTimeValue_float\<close> and \<open>updateEnvelopePosition_float\<close> are written so,
    because the claims about them depend on the rounding.

  Infinities and NaN are not numbers of the model:

  \<^item> the source divides IEEE numbers, where a zero divisor yields an infinity or a NaN,
    while \<open>x / 0 = 0\<close> in HOL. No statement below depends on the value of a quotient with a
    zero divisor: either it holds whatever that value is, or the divisor is assumed to be
    non-zero;
  \<^item> a rounded result beyond the largest finite number is an infinity in the source; the
    statements about rounded values concern numbers far below that size.

  \<open>int\<close> is the type \<^typ>\<open>int\<close>, without wrap-around. The conversion \<open>(int) x\<close>
  truncates towards zero when the truncated value fits the 32-bit \<open>int\<close> type, which
  \<open>int_representable x\<close> says, and C++ leaves it undefined otherwise; \<open>int_cast\<close> has the
  truncation as its value in the first case and an unspecified value in the second, so a
  statement about the value of a conversion needs \<open>int_representable\<close> of the converted
  number.
\<close>

definition truncation :: "real \<Rightarrow> int" where
  "truncation x = (if 0 \<le> x then \<lfloor>x\<rfloor> else \<lceil>x\<rceil>)"

definition int_representable :: "real \<Rightarrow> bool" where
  "int_representable x \<longleftrightarrow> - 2147483649 < x \<and> x < 2147483648"

definition int_cast :: "real \<Rightarrow> int" where
  "int_cast x = (if int_representable x then truncation x else undefined)"

definition round_half_even :: "real \<Rightarrow> int" where
  "round_half_even r =
     (let f = \<lfloor>r\<rfloor>
      in if r - of_int f < 1 / 2 then f
         else if 1 / 2 < r - of_int f then f + 1
         else if even f then f else f + 1)"

text \<open>
  Rounding to a binary format with \<open>p\<close> significand bits and least normal exponent
  \<open>emin\<close>: the spacing of the format at \<open>x\<close> is \<open>2\<close> to the power \<open>e - (p - 1)\<close>, where
  \<open>e\<close> is the exponent of \<open>x\<close>, and at least \<open>emin\<close>.
\<close>

definition fp_round :: "nat \<Rightarrow> int \<Rightarrow> real \<Rightarrow> real" where
  "fp_round p emin x =
     (if x = 0 then 0
      else let e = max \<lfloor>log 2 \<bar>x\<bar>\<rfloor> emin;
               q = 2 powr (of_int e - (real p - 1))
           in of_int (round_half_even (x / q)) * q)"

definition float32_round :: "real \<Rightarrow> real" where
  "float32_round = fp_round 24 (- 126)"

definition float64_round :: "real \<Rightarrow> real" where
  "float64_round = fp_round 53 (- 1022)"

section \<open>Filter (SignalProcessor.h)\<close>

text \<open>
  The struct \<open>Filter\<close>. Its constant member \<open>pi\<close> is \<open>Filter_pi\<close> here, since \<open>pi\<close> is
  the circle constant in HOL; the source documents it as an approximation.
\<close>

record Filter =
  prev_input :: real
  prev_output :: real
  cutoff_frequency :: real
  sampling_frequency :: real
  theta_c :: real
  k :: real
  alpha :: real

definition Filter_pi :: real where
  "Filter_pi = 3.1415926535"

text \<open>The default member initialisers of \<open>Filter\<close>.\<close>

definition Filter_init :: Filter where
  "Filter_init =
     \<lparr>prev_input = 0, prev_output = 0, cutoff_frequency = 1000,
      sampling_frequency = 44100, theta_c = 0, k = 0, alpha = 0\<rparr>"

definition calc_coeff :: "Filter \<Rightarrow> Filter" where
  "calc_coeff f =
     (let f1 = f\<lparr>theta_c := 2.0 * Filter_pi * cutoff_frequency f / Filter.sampling_frequency f\<rparr>;
          f2 = f1\<lparr>k := tan (theta_c f1 / 2.0)\<rparr>
      in f2\<lparr>alpha := 1 + k f2\<rparr>)"

definition set_sampling_frequency :: "Filter \<Rightarrow> real \<Rightarrow> Filter" where
  "set_sampling_frequency f new_freq = calc_coeff (f\<lparr>Filter.sampling_frequency := new_freq\<rparr>)"

definition set_cutoff_frequency :: "Filter \<Rightarrow> real \<Rightarrow> Filter" where
  "set_cutoff_frequency f new_freq = calc_coeff (f\<lparr>cutoff_frequency := new_freq\<rparr>)"

text \<open>
  \<open>calculate_lpf\<close> and \<open>calculate_hpf\<close> return the output sample and update the two
  previous-sample members: the result is the pair of the output and the new filter.
\<close>

definition calculate_lpf :: "Filter \<Rightarrow> real \<Rightarrow> real \<times> Filter" where
  "calculate_lpf f new_sample =
     (let a0 = 1.0;
          a1 = - (1.0 - k f) / alpha f;
          b0 = k f / alpha f;
          b1 = k f / alpha f;
          output = (1 / a0) * (b0 * new_sample + b1 * prev_input f - a1 * prev_output f)
      in (output, f\<lparr>prev_input := new_sample, prev_output := output\<rparr>))"

definition calculate_hpf :: "Filter \<Rightarrow> real \<Rightarrow> real \<times> Filter" where
  "calculate_hpf f new_sample =
     (let a0 = 1.0;
          a1 = - (1.0 - k f) / alpha f;
          b0 = 1.0 / alpha f;
          b1 = - 1.0 / alpha f;
          output = (1 / a0) * (b0 * new_sample + b1 * prev_input f - a1 * prev_output f)
      in (output, f\<lparr>prev_input := new_sample, prev_output := output\<rparr>))"

section \<open>SignalProcessor (SignalProcessor.h, SignalProcessor.cpp)\<close>

text \<open>
  The class \<open>SignalProcessor\<close>. The constants \<open>MIN_MIDI_VAL\<close> and \<open>MAX_MIDI_VAL\<close> are
  never read by the source and are left out.
\<close>

record SignalProcessor =
  current_envelope_position :: real
  min_val :: real
  max_val :: real
  gain :: real
  sampling_frequency :: real
  decay :: real
  lowFilter :: Filter
  highFilter :: Filter

text \<open>
  The constructor, together with the default member initialisers (\<open>decay = 0.99\<close> and the
  two default filters).
\<close>

definition SignalProcessor_init :: SignalProcessor where
  "SignalProcessor_init =
     \<lparr>current_envelope_position = 0.0, min_val = 0.0, max_val = 127.0, gain = 1.0,
      sampling_frequency = 44100, decay = 0.99,
      lowFilter = Filter_init, highFilter = Filter_init\<rparr>"

text \<open>
  In \<open>updateEnvelopePosition\<close> the call \<open>abs(sample)\<close> has a \<open>float\<close> argument and is the
  absolute value of that number.
\<close>

definition updateEnvelopePosition :: "SignalProcessor \<Rightarrow> real \<Rightarrow> SignalProcessor" where
  "updateEnvelopePosition s sample =
     (let s1 = s\<lparr>current_envelope_position := current_envelope_position s * decay s\<rparr>
      in if \<bar>sample\<bar> > current_envelope_position s1
         then s1\<lparr>current_envelope_position := \<bar>sample\<bar>\<rparr>
         else s1)"

definition takeInSample :: "SignalProcessor \<Rightarrow> real \<Rightarrow> SignalProcessor" where
  "takeInSample s sample =
     (let sample1 = sample * gain s;
          (sample2, lf) = calculate_lpf (lowFilter s) sample1;
          s1 = s\<lparr>lowFilter := lf\<rparr>;
          (sample3, hf) = calculate_hpf (highFilter s1) sample2;
          s2 = s1\<lparr>highFilter := hf\<rparr>
      in updateEnvelopePosition s2 sample3)"

text \<open>
  \<open>getEnvelopePosition\<close>, in the rounded reading: the difference, the product and the sum
  are \<open>float\<close> operations, and the three conversions to \<open>int\<close> come before the clamping.
\<close>

definition getEnvelopePosition :: "SignalProcessor \<Rightarrow> int" where
  "getEnvelopePosition s =
     (let scaled_envelope_position =
            float32_round
              (float32_round (current_envelope_position s * float32_round (max_val s - min_val s))
                 + min_val s);
          low_bound = min (int_cast (max_val s)) (int_cast (min_val s));
          high_bound = max (int_cast (min_val s)) (int_cast (max_val s))
      in max (min (int_cast scaled_envelope_position) high_bound) low_bound)"

definition setMinValue :: "SignalProcessor \<Rightarrow> real \<Rightarrow> SignalProcessor" where
  "setMinValue s new_min = s\<lparr>min_val := new_min\<rparr>"

definition setMaxValue :: "SignalProcessor \<Rightarrow> real \<Rightarrow> SignalProcessor" where
  "setMaxValue s new_max = s\<lparr>max_val := new_max\<rparr>"

definition setGainValue :: "SignalProcessor \<Rightarrow> real \<Rightarrow> SignalProcessor" where
  "setGainValue s new_gain = s\<lparr>gain := new_gain\<rparr>"

definition setLowpassValue :: "SignalProcessor \<Rightarrow> real \<Rightarrow> SignalProcessor" where
  "setLowpassValue s lp_val = s\<lparr>lowFilter := set_cutoff_frequency (lowFilter s) lp_val\<rparr>"

definition setHighpassValue :: "SignalProcessor \<Rightarrow> real \<Rightarrow> SignalProcessor" where
  "setHighpassValue s hp_val = s\<lparr>highFilter := set_cutoff_frequency (highFilter s) hp_val\<rparr>"

definition setRecoveryTimeValue :: "SignalProcessor \<Rightarrow> real \<Rightarrow> SignalProcessor" where
  "setRecoveryTimeValue s recovery_time =
     (let recovery_time1 = max recovery_time 0.001;
          num_samples = recovery_time1 * SignalProcessor.sampling_frequency s
      in s\<lparr>decay := 2 powr (- 1 / num_samples)\<rparr>)"

definition setSamplingFrequency :: "SignalProcessor \<Rightarrow> real \<Rightarrow> SignalProcessor" where
  "setSamplingFrequency s freq =
     (let s1 = s\<lparr>SignalProcessor.sampling_frequency := freq\<rparr>;
          s2 = s1\<lparr>lowFilter := set_sampling_frequency (lowFilter s1) freq\<rparr>
      in s2\<lparr>highFilter := set_sampling_frequency (highFilter s2) freq\<rparr>)"

text \<open>
  \<open>setRecoveryTimeValue\<close> and \<open>updateEnvelopePosition\<close> in the rounded reading. The
  argument is converted to the \<open>float\<close> parameter. In \<open>setRecoveryTimeValue\<close> the call of
  \<open>fmax\<close> compares two \<open>double\<close> values, the second being the \<open>double\<close> constant
  \<open>0.001\<close>, and its result is stored in the \<open>float\<close> parameter; the product with the
  \<open>double\<close> member \<open>sampling_frequency\<close> is a \<open>double\<close> operation stored in a \<open>float\<close>;
  the quotient is a \<open>float\<close> operation; \<open>pow\<close> is a \<open>double\<close> operation stored in the
  \<open>float\<close> member \<open>decay\<close>. In \<open>updateEnvelopePosition\<close> the product is a \<open>float\<close>
  operation.
\<close>

definition setRecoveryTimeValue_float :: "SignalProcessor \<Rightarrow> real \<Rightarrow> SignalProcessor" where
  "setRecoveryTimeValue_float s recovery_time =
     (let recovery_time0 = float32_round recovery_time;
          recovery_time1 = float32_round (max recovery_time0 (float64_round 0.001));
          num_samples =
            float32_round (float64_round (recovery_time1 * SignalProcessor.sampling_frequency s));
          exponent = float32_round (- 1 / num_samples)
      in s\<lparr>decay := float32_round (float64_round (2 powr exponent))\<rparr>)"

definition updateEnvelopePosition_float :: "SignalProcessor \<Rightarrow> real \<Rightarrow> SignalProcessor" where
  "updateEnvelopePosition_float s sample =
     (let sample0 = float32_round sample;
          s1 = s\<lparr>current_envelope_position :=
                 float32_round (current_envelope_position s * decay s)\<rparr>
      in if \<bar>sample0\<bar> > current_envelope_position s1
         then s1\<lparr>current_envelope_position := \<bar>sample0\<bar>\<rparr>
         else s1)"

text \<open>
  The calls a client can make on a \<open>SignalProcessor\<close> that change it, as data, and a
  sequence of such calls run from left to right. (\<open>getEnvelopePosition\<close> only reads.)
\<close>

datatype sp_call =
    TakeInSample real
  | SetMinValue real
  | SetMaxValue real
  | SetGainValue real
  | SetLowpassValue real
  | SetHighpassValue real
  | SetRecoveryTimeValue real
  | SetSamplingFrequency real

fun sp_apply :: "SignalProcessor \<Rightarrow> sp_call \<Rightarrow> SignalProcessor" where
  "sp_apply s (TakeInSample x) = takeInSample s x"
| "sp_apply s (SetMinValue x) = setMinValue s x"
| "sp_apply s (SetMaxValue x) = setMaxValue s x"
| "sp_apply s (SetGainValue x) = setGainValue s x"
| "sp_apply s (SetLowpassValue x) = setLowpassValue s x"
| "sp_apply s (SetHighpassValue x) = setHighpassValue s x"
| "sp_apply s (SetRecoveryTimeValue x) = setRecoveryTimeValue s x"
| "sp_apply s (SetSamplingFrequency x) = setSamplingFrequency s x"

fun sp_run :: "SignalProcessor \<Rightarrow> sp_call list \<Rightarrow> SignalProcessor" where
  "sp_run s [] = s"
| "sp_run s (c # cs) = sp_run (sp_apply s c) cs"

section \<open>EnvelopeFollowerAudioProcessor (PluginProcessor.h, PluginProcessor.cpp)\<close>

text \<open>
  The members of \<open>EnvelopeFollowerAudioProcessor\<close> that the audio path reads or writes.
  The six \<open>juce::AudioParameterFloat\<close> members are the values they hold. The two
  visualisers, \<open>midi_info\<close> and the MIDI output device belong to the user interface and the
  transport; a message handed to \<open>sendCCMessage\<close> is the triple of channel, controller type
  and value that it builds.
\<close>

record EnvelopeFollowerAudioProcessor =
  gain_user_param :: real
  min_pos_user_param :: real
  max_pos_user_param :: real
  low_pass_user_param :: real
  hi_pass_user_param :: real
  recovery_user_param :: real
  midi_message_rate :: real
  samples_per_midi_message :: int
  elapsed_since_midi :: int
  elapsed_since_drawer :: int
  signalProcessor :: SignalProcessor
  midi_channel :: int
  midi_controller_type :: int
  midi_value :: int

type_synonym cc_message = "int \<times> int \<times> int"

text \<open>
  The constructor sets the parameter defaults and \<open>midi_message_rate\<close>; the header gives
  \<open>midi_channel\<close>, \<open>midi_controller_type\<close> and \<open>midi_value\<close> their defaults. It leaves
  \<open>samples_per_midi_message\<close>, \<open>elapsed_since_midi\<close> and \<open>elapsed_since_drawer\<close>
  uninitialised: their values after construction are the three arguments here.
\<close>

definition EnvelopeFollowerAudioProcessor_init :: "int \<Rightarrow> int \<Rightarrow> int \<Rightarrow> EnvelopeFollowerAudioProcessor" where
  "EnvelopeFollowerAudioProcessor_init u1 u2 u3 =
     \<lparr>gain_user_param = 0.0, min_pos_user_param = 0.0, max_pos_user_param = 100.0,
      low_pass_user_param = 20000.0, hi_pass_user_param = 0.0, recovery_user_param = 0.0,
      midi_message_rate = 10,
      samples_per_midi_message = u1, elapsed_since_midi = u2, elapsed_since_drawer = u3,
      signalProcessor = SignalProcessor_init,
      midi_channel = 1, midi_controller_type = 14, midi_value = 0\<rparr>"

definition prepareToPlay :: "EnvelopeFollowerAudioProcessor \<Rightarrow> real \<Rightarrow> int \<Rightarrow> EnvelopeFollowerAudioProcessor" where
  "prepareToPlay p sampleRate samplesPerBlock =
     (let p1 = p\<lparr>signalProcessor := setSamplingFrequency (signalProcessor p) sampleRate\<rparr>;
          p2 = p1\<lparr>samples_per_midi_message := int_cast (sampleRate / midi_message_rate p1)\<rparr>;
          p3 = p2\<lparr>elapsed_since_midi := 0\<rparr>
      in p3\<lparr>elapsed_since_drawer := 0\<rparr>)"

definition updateMathParams :: "EnvelopeFollowerAudioProcessor \<Rightarrow> EnvelopeFollowerAudioProcessor" where
  "updateMathParams p =
     (let amp_gain = 10.0 powr (gain_user_param p / 20.0);
          min_value_scaled = (min_pos_user_param p / 100.0) * 127.0;
          max_value_scaled = (max_pos_user_param p / 100.0) * 127.0;
          lowpass_value = low_pass_user_param p;
          highpass_value = hi_pass_user_param p;
          recovery_time = recovery_user_param p;
          s1 = setMaxValue (signalProcessor p) max_value_scaled;
          s2 = setMinValue s1 min_value_scaled;
          s3 = setGainValue s2 amp_gain;
          s4 = setLowpassValue s3 lowpass_value;
          s5 = setHighpassValue s4 highpass_value;
          s6 = setRecoveryTimeValue s5 recovery_time
      in p\<lparr>signalProcessor := s6\<rparr>)"

text \<open>
  The body of the sample loop of \<open>processBlock\<close> for one index. The argument \<open>frame\<close> holds
  the samples of the input channels at that index, so its length is
  \<open>totalNumInputChannels\<close>. The result is the new processor and the message sent at this
  index, if one was sent.
\<close>

definition processBlock_sample ::
    "EnvelopeFollowerAudioProcessor \<Rightarrow> real list \<Rightarrow> EnvelopeFollowerAudioProcessor \<times> cc_message option" where
  "processBlock_sample p frame =
     (let sample = foldl (+) 0 frame / real (length frame);
          p1 = p\<lparr>signalProcessor := takeInSample (signalProcessor p) sample\<rparr>;
          p2 = p1\<lparr>elapsed_since_midi := elapsed_since_midi p1 + 1\<rparr>;
          p3 = p2\<lparr>elapsed_since_drawer := elapsed_since_drawer p2 + 1\<rparr>
      in if elapsed_since_midi p3 = samples_per_midi_message p3
         then (let p4 = p3\<lparr>elapsed_since_midi := 0\<rparr>;
                   p5 = p4\<lparr>midi_value := getEnvelopePosition (signalProcessor p4)\<rparr>
               in (p5, Some (midi_channel p5, midi_controller_type p5, midi_value p5)))
         else (p3, None))"

text \<open>
  The sample loop over a buffer, given as the list of its frames: one entry of the result
  list per sample, \<open>Some\<close> message where one was sent.
\<close>

fun processBlock_loop ::
    "EnvelopeFollowerAudioProcessor \<Rightarrow> real list list \<Rightarrow> EnvelopeFollowerAudioProcessor \<times> cc_message option list" where
  "processBlock_loop p [] = (p, [])"
| "processBlock_loop p (frame # frames) =
     (let (p1, sent) = processBlock_sample p frame;
          (p2, rest) = processBlock_loop p1 frames
      in (p2, sent # rest))"

definition processBlock ::
    "EnvelopeFollowerAudioProcessor \<Rightarrow> real list list \<Rightarrow> EnvelopeFollowerAudioProcessor \<times> cc_message option list" where
  "processBlock p buffer = processBlock_loop (updateMathParams p) buffer"

text \<open>The host calls \<open>processBlock\<close> once per buffer; this runs it over a list of buffers.\<close>

fun processBlocks ::
    "EnvelopeFollowerAudioProcessor \<Rightarrow> real list list list \<Rightarrow> EnvelopeFollowerAudioProcessor \<times> cc_message option list" where
  "processBlocks p [] = (p, [])"
| "processBlocks p (buffer # buffers) =
     (let (p1, sent) = processBlock p buffer;
          (p2, rest) = processBlocks p1 buffers
      in (p2, sent @ rest))"

section \<open>Error conditions\<close>

text \<open>
  The specification names two error conditions. The source has no statement that raises or
  reports either of them: \<open>takeInSample\<close> and \<open>prepareToPlay\<close> return \<open>void\<close>, contain no
  \<open>throw\<close> and no early return, and neither class keeps a flag that records whether
  \<open>prepareToPlay\<close> has run. The outcome of a call, as a value that is either a condition or
  the new state, is therefore always the new state.
\<close>

datatype condition = InvalidConfiguration | UsedBeforePrepared

definition takeInSample_result :: "SignalProcessor \<Rightarrow> real \<Rightarrow> condition + SignalProcessor" where
  "takeInSample_result s sample = Inr (takeInSample s sample)"

definition prepareToPlay_result ::
    "EnvelopeFollowerAudioProcessor \<Rightarrow> real \<Rightarrow> int \<Rightarrow> condition + EnvelopeFollowerAudioProcessor" where
  "prepareToPlay_result p sampleRate samplesPerBlock = Inr (prepareToPlay p sampleRate samplesPerBlock)"

section \<open>Auxiliary facts\<close>





lemma int_cast_eq: "int_representable x \<Longrightarrow> int_cast x = truncation x"
  by (simp add: int_cast_def)

text \<open>The \<open>n\<close>-th power of \<open>2\<close> to the \<open>-1/n\<close> is one half.\<close>

lemma half_life: "0 < n \<Longrightarrow> (2 powr (- 1 / real n)) ^ n = (1/2::real)"
proof -
  assume n: "0 < n"
  have "(2 powr (- 1 / real n)) ^ n = (2 powr (- 1 / real n)) powr (real n)"
    by (simp add: powr_realpow)
  also have "\<dots> = 2 powr ((- 1 / real n) * real n)"
    by (simp only: powr_powr)
  also have "(- 1 / real n) * real n = - 1" using n by simp
  also have "(2::real) powr (- 1) = 1 / 2" by (simp add: powr_minus_divide)
  finally show ?thesis .
qed

text \<open>One envelope update as a single assignment.\<close>

lemma updateEnvelopePosition_max:
  "updateEnvelopePosition s x =
     s\<lparr>current_envelope_position := max (current_envelope_position s * decay s) \<bar>x\<bar>\<rparr>"
  by (simp add: updateEnvelopePosition_def Let_def max_def)

text \<open>
  Rounding to the nearest integer, and rounding to a format: the value at a known exponent,
  the relative error in the normal range, and the numbers that are not changed.
\<close>

lemma round_half_even_error: "\<bar>of_int (round_half_even r) - r\<bar> \<le> 1 / 2"
  unfolding round_half_even_def Let_def
  by (auto simp: abs_if) linarith+

lemma round_half_even_of_int: "round_half_even (of_int z) = z"
  by (simp add: round_half_even_def)

lemma round_half_even_eqI:
  assumes "of_int K - 1 / 2 < r" "r < of_int K + 1 / 2"
  shows "round_half_even r = K"
proof -
  have "\<lfloor>r\<rfloor> = K \<or> \<lfloor>r\<rfloor> = K - 1" using assms by linarith
  then show ?thesis
  proof
    assume f: "\<lfloor>r\<rfloor> = K"
    then have "r - of_int K < 1 / 2" using assms by simp
    then show ?thesis by (simp add: round_half_even_def f)
  next
    assume f: "\<lfloor>r\<rfloor> = K - 1"
    then have "1 / 2 < r - of_int (K - 1)" using assms by simp
    then show ?thesis by (simp add: round_half_even_def f)
  qed
qed

lemma floor_log2_eqI:
  assumes "2 powr of_int e \<le> x" "x < 2 powr (of_int e + 1)"
  shows "\<lfloor>log 2 x\<rfloor> = e"
proof -
  have x: "0 < x" using assms(1) powr_gt_zero [of 2 "of_int e"] by linarith
  have "of_int e \<le> log 2 x" using assms(1) x by (simp add: le_log_iff)
  moreover have "log 2 x < of_int e + 1" using assms(2) x by (simp add: log_less_iff)
  ultimately show ?thesis by linarith
qed

lemma floor_log2_bounds:
  assumes "0 < x"
  shows "2 powr of_int \<lfloor>log 2 x\<rfloor> \<le> x" "x < 2 powr (of_int \<lfloor>log 2 x\<rfloor> + 1)"
proof -
  have "of_int \<lfloor>log 2 x\<rfloor> \<le> log 2 x" by simp
  then show "2 powr of_int \<lfloor>log 2 x\<rfloor> \<le> x"
    using assms le_log_iff [of 2 x "of_int \<lfloor>log 2 x\<rfloor>"] by simp
  have "log 2 x < of_int \<lfloor>log 2 x\<rfloor> + 1" by linarith
  then show "x < 2 powr (of_int \<lfloor>log 2 x\<rfloor> + 1)"
    using assms log_less_iff [of 2 x "of_int \<lfloor>log 2 x\<rfloor> + 1"] by simp
qed

lemma fp_round_binade:
  assumes "2 powr of_int e \<le> \<bar>x\<bar>" "\<bar>x\<bar> < 2 powr (of_int e + 1)" "emin \<le> e"
  shows "fp_round p emin x =
           of_int (round_half_even (x / 2 powr (of_int e - (real p - 1))))
             * 2 powr (of_int e - (real p - 1))"
proof -
  have "0 < \<bar>x\<bar>" using assms(1) powr_gt_zero [of 2 "of_int e"] by linarith
  then have x: "x \<noteq> 0" by simp
  have "\<lfloor>log 2 \<bar>x\<bar>\<rfloor> = e" using assms(1,2) by (rule floor_log2_eqI)
  then show ?thesis using x assms(3) by (simp add: fp_round_def Let_def max_def)
qed

lemma fp_round_rel_error:
  assumes "2 powr of_int emin \<le> \<bar>x\<bar>"
  shows "\<bar>fp_round p emin x - x\<bar> \<le> 2 powr (- real p) * \<bar>x\<bar>"
proof -
  have pos: "0 < \<bar>x\<bar>" using assms powr_gt_zero [of 2 "of_int emin"] by linarith
  then have x: "x \<noteq> 0" by simp
  let ?e = "\<lfloor>log 2 \<bar>x\<bar>\<rfloor>"
  have lo: "2 powr of_int ?e \<le> \<bar>x\<bar>" using pos by (rule floor_log2_bounds)
  have "of_int emin \<le> log 2 \<bar>x\<bar>" using assms pos by (simp add: le_log_iff)
  then have ee: "emin \<le> ?e" by (simp add: le_floor_iff)
  let ?q = "2 powr (of_int ?e - (real p - 1))"
  have q: "0 < ?q" by simp
  have r: "fp_round p emin x = of_int (round_half_even (x / ?q)) * ?q"
    using x ee by (simp add: fp_round_def Let_def max_def)
  have "\<bar>fp_round p emin x - x\<bar> = \<bar>of_int (round_half_even (x / ?q)) - x / ?q\<bar> * ?q"
  proof -
    have "fp_round p emin x - x = (of_int (round_half_even (x / ?q)) - x / ?q) * ?q"
      using q by (simp add: r algebra_simps)
    then show ?thesis using q by (simp add: abs_mult)
  qed
  also have "\<dots> \<le> (1 / 2) * ?q"
    using round_half_even_error [of "x / ?q"] q by (intro mult_right_mono) simp_all
  also have "(1 / 2) * ?q = 2 powr (- real p) * 2 powr of_int ?e"
  proof -
    have "(1 / 2 :: real) = 2 powr (- 1)" by (simp add: powr_minus_divide)
    then have "(1 / 2) * ?q = 2 powr (- 1) * 2 powr (of_int ?e - (real p - 1))" by simp
    also have "\<dots> = 2 powr (- 1 + (of_int ?e - (real p - 1)))" by (simp only: powr_add)
    also have "\<dots> = 2 powr (- real p + of_int ?e)" by (simp add: algebra_simps)
    also have "\<dots> = 2 powr (- real p) * 2 powr of_int ?e" by (simp only: powr_add)
    finally show ?thesis .
  qed
  also have "\<dots> \<le> 2 powr (- real p) * \<bar>x\<bar>"
    using lo by (intro mult_left_mono) simp_all
  finally show ?thesis .
qed

lemma fp_round_exact:
  assumes "\<bar>m\<bar> < 2 ^ p" "emin - (int p - 1) \<le> j"
  shows "fp_round p emin (of_int m * 2 powr of_int j) = of_int m * 2 powr of_int j"
proof (cases "m = 0")
  case True
  then show ?thesis by (simp add: fp_round_def)
next
  case False
  let ?x = "of_int m * 2 powr of_int j :: real"
  let ?am = "real_of_int \<bar>m\<bar>"
  let ?em = "\<lfloor>log 2 ?am\<rfloor>"
  have am: "1 \<le> ?am" using False by linarith
  then have am0: "0 < ?am" by linarith
  have absx: "\<bar>?x\<bar> = ?am * 2 powr of_int j" by (simp add: abs_mult)
  have x0: "?x \<noteq> 0" using False by simp
  have em0: "0 \<le> ?em" using am by simp
  have "?am < 2 ^ p" using assms(1) by (metis of_int_less_numeral_power_cancel_iff)
  then have "log 2 ?am < real p" using am0 by (simp add: log_less_iff powr_realpow)
  then have emp: "?em \<le> int p - 1" by linarith
  have e: "\<lfloor>log 2 \<bar>?x\<bar>\<rfloor> = ?em + j"
  proof (rule floor_log2_eqI)
    have "(2::real) powr of_int (?em + j) = 2 powr of_int ?em * 2 powr of_int j"
      by (simp add: powr_add)
    also have "\<dots> \<le> ?am * 2 powr of_int j"
      using floor_log2_bounds(1) [OF am0] by (intro mult_right_mono) simp_all
    finally show "2 powr of_int (?em + j) \<le> \<bar>?x\<bar>" by (simp only: absx)
    have "?am * 2 powr of_int j < 2 powr (of_int ?em + 1) * 2 powr of_int j"
      using floor_log2_bounds(2) [OF am0] by (intro mult_strict_right_mono) simp_all
    also have "\<dots> = 2 powr (of_int (?em + j) + 1)"
      by (simp add: powr_add [symmetric] algebra_simps)
    finally show "\<bar>?x\<bar> < 2 powr (of_int (?em + j) + 1)" by (simp only: absx)
  qed
  define e' where "e' = max (?em + j) emin"
  define t where "t = j - e' + (int p - 1)"
  have t0: "0 \<le> t" using emp assms(2) by (simp add: t_def e'_def max_def)
  let ?q = "2 powr (of_int e' - (real p - 1))"
  have r: "fp_round p emin ?x = of_int (round_half_even (?x / ?q)) * ?q"
    using x0 by (simp only: fp_round_def e Let_def e'_def if_False)
  have "(2::real) powr of_int j / ?q = 2 powr (of_int j - (of_int e' - (real p - 1)))"
    by (simp only: powr_diff)
  also have "of_int j - (of_int e' - (real p - 1)) = of_int t"
    by (simp add: t_def)
  also have "2 powr (of_int t :: real) = of_int (2 ^ nat t)"
    using t0 by (simp add: powr_real_of_int)
  finally have d: "(2::real) powr of_int j / ?q = of_int (2 ^ nat t)" .
  have "?x / ?q = of_int m * (2 powr of_int j / ?q)" by simp
  also have "\<dots> = of_int (m * 2 ^ nat t)" by (simp only: d of_int_mult)
  finally have "?x / ?q = of_int (m * 2 ^ nat t)" .
  then have "of_int (round_half_even (?x / ?q)) = ?x / ?q"
    by (simp only: round_half_even_of_int)
  then show ?thesis by (simp add: r)
qed

lemma fp_round_at:
  assumes "q = 2 powr (of_int e - (real p - 1))" "lo = 2 powr of_int e"
    and "lo \<le> \<bar>x\<bar>" "\<bar>x\<bar> < 2 * lo" "emin \<le> e"
  shows "fp_round p emin x = of_int (round_half_even (x / q)) * q"
proof -
  have "2 * lo = 2 powr (of_int e + 1)" by (simp add: assms(2) powr_add)
  then show ?thesis
    using fp_round_binade [of e x emin p] assms by simp
qed

text \<open>The members that the filter steps, \<open>calc_coeff\<close> and the setters leave alone.\<close>

lemma calculate_frame:
  "prev_input (snd (calculate_lpf f x)) = x"
  "prev_output (snd (calculate_lpf f x)) = fst (calculate_lpf f x)"
  "k (snd (calculate_lpf f x)) = k f"
  "alpha (snd (calculate_lpf f x)) = alpha f"
  "prev_input (snd (calculate_hpf f x)) = x"
  "prev_output (snd (calculate_hpf f x)) = fst (calculate_hpf f x)"
  "k (snd (calculate_hpf f x)) = k f"
  "alpha (snd (calculate_hpf f x)) = alpha f"
  by (simp_all add: calculate_lpf_def calculate_hpf_def Let_def)

lemma calc_coeff_fields:
  "prev_input (calc_coeff f) = prev_input f"
  "prev_output (calc_coeff f) = prev_output f"
  "cutoff_frequency (calc_coeff f) = cutoff_frequency f"
  "Filter.sampling_frequency (calc_coeff f) = Filter.sampling_frequency f"
  "theta_c (calc_coeff f) = 2 * Filter_pi * cutoff_frequency f / Filter.sampling_frequency f"
  "k (calc_coeff f) = tan (2 * Filter_pi * cutoff_frequency f / Filter.sampling_frequency f / 2)"
  "alpha (calc_coeff f) = 1 + tan (2 * Filter_pi * cutoff_frequency f / Filter.sampling_frequency f / 2)"
  by (simp_all add: calc_coeff_def Let_def)

lemma takeInSample_unfold:
  "takeInSample s x =
     updateEnvelopePosition
       (s\<lparr>lowFilter := snd (calculate_lpf (lowFilter s) (x * gain s)),
          highFilter := snd (calculate_hpf (highFilter s) (fst (calculate_lpf (lowFilter s) (x * gain s))))\<rparr>)
       (fst (calculate_hpf (highFilter s) (fst (calculate_lpf (lowFilter s) (x * gain s)))))"
  by (simp add: takeInSample_def Let_def case_prod_beta)

lemma setSamplingFrequency_unfold:
  "setSamplingFrequency s f =
     s\<lparr>SignalProcessor.sampling_frequency := f,
       lowFilter := calc_coeff ((lowFilter s)\<lparr>Filter.sampling_frequency := f\<rparr>),
       highFilter := calc_coeff ((highFilter s)\<lparr>Filter.sampling_frequency := f\<rparr>)\<rparr>"
  by (simp add: setSamplingFrequency_def set_sampling_frequency_def Let_def)

lemma prepareToPlay_unfold:
  "prepareToPlay p f n =
     p\<lparr>signalProcessor := setSamplingFrequency (signalProcessor p) f,
       samples_per_midi_message := int_cast (f / midi_message_rate p),
       elapsed_since_midi := 0, elapsed_since_drawer := 0\<rparr>"
  by (simp add: prepareToPlay_def Let_def)

section \<open>The frequency filter\<close>

text \<open>
  C1. One lowpass step returns
  \<open>(k/alpha)*sample + (k/alpha)*prev_input + ((1-k)/alpha)*prev_output\<close>, one highpass step
  returns \<open>(1/alpha)*sample - (1/alpha)*prev_input + ((1-k)/alpha)*prev_output\<close>; each step
  stores the sample as \<open>prev_input\<close> and the returned value as \<open>prev_output\<close> and changes
  nothing else. The coefficients \<open>k\<close> and \<open>alpha\<close> are the ones \<open>calc_coeff\<close> last stored:
  \<open>theta_c = 2*pi*cutoff_frequency/sampling_frequency\<close> (with the source's constant \<open>pi\<close>),
  \<open>k = tan(theta_c/2)\<close>, \<open>alpha = 1 + k\<close>, and both frequency setters end with
  \<open>calc_coeff\<close>. The identities hold for any value of the quotients, so they do not depend
  on what a division by \<open>alpha = 0\<close> yields.
\<close>

theorem filter_step_formula:
  "calculate_lpf f x =
     ((k f / alpha f) * x + (k f / alpha f) * prev_input f
        + ((1 - k f) / alpha f) * prev_output f,
      f\<lparr>prev_input := x,
        prev_output := (k f / alpha f) * x + (k f / alpha f) * prev_input f
                         + ((1 - k f) / alpha f) * prev_output f\<rparr>)
   \<and> calculate_hpf f x =
     ((1 / alpha f) * x - (1 / alpha f) * prev_input f
        + ((1 - k f) / alpha f) * prev_output f,
      f\<lparr>prev_input := x,
        prev_output := (1 / alpha f) * x - (1 / alpha f) * prev_input f
                         + ((1 - k f) / alpha f) * prev_output f\<rparr>)
   \<and> calc_coeff f =
       f\<lparr>theta_c := 2 * Filter_pi * cutoff_frequency f / Filter.sampling_frequency f,
         k := tan ((2 * Filter_pi * cutoff_frequency f / Filter.sampling_frequency f) / 2),
         alpha := 1 + tan ((2 * Filter_pi * cutoff_frequency f / Filter.sampling_frequency f) / 2)\<rparr>
   \<and> set_cutoff_frequency f c = calc_coeff (f\<lparr>cutoff_frequency := c\<rparr>)
   \<and> set_sampling_frequency f c = calc_coeff (f\<lparr>Filter.sampling_frequency := c\<rparr>)"
proof -
  have neg: "b - (- c / a) * p = b + (c / a) * p" for a b c p :: real
    by simp
  have lp: "(1 / 1.0) * (k f / alpha f * x + k f / alpha f * prev_input f
          - (- (1.0 - k f) / alpha f) * prev_output f)
        = (k f / alpha f) * x + (k f / alpha f) * prev_input f
            + ((1 - k f) / alpha f) * prev_output f"
    by (simp only: neg) simp
  have hp: "(1 / 1.0) * (1.0 / alpha f * x + (- 1.0 / alpha f) * prev_input f
          - (- (1.0 - k f) / alpha f) * prev_output f)
        = (1 / alpha f) * x - (1 / alpha f) * prev_input f
            + ((1 - k f) / alpha f) * prev_output f"
    by (simp only: neg) simp
  show ?thesis
    unfolding calculate_lpf_def calculate_hpf_def Let_def lp hp
    by (simp add: calc_coeff_def Let_def set_cutoff_frequency_def set_sampling_frequency_def)
qed


section \<open>The envelope tracker\<close>

text \<open>
  C2. One envelope update multiplies \<open>current_envelope_position\<close> by \<open>decay\<close> and then
  replaces it with the maximum of that product and \<open>abs(sample)\<close>, and changes no other
  member. So a sample whose magnitude exceeds the decayed level sets the level to exactly
  \<open>abs(sample)\<close>, whatever the level and the decay were.
\<close>

theorem envelope_update_is_max:
  "updateEnvelopePosition s x =
     s\<lparr>current_envelope_position := max (current_envelope_position s * decay s) \<bar>x\<bar>\<rparr>
   \<and> (current_envelope_position s * decay s < \<bar>x\<bar>
        \<longrightarrow> current_envelope_position (updateEnvelopePosition s x) = \<bar>x\<bar>)"
  by (simp add: updateEnvelopePosition_def Let_def max_def)

theorem envelope_update_is_max_witness:
  "current_envelope_position (SignalProcessor_init\<lparr>current_envelope_position := 1\<rparr>)
     * decay (SignalProcessor_init\<lparr>current_envelope_position := 1\<rparr>) < \<bar>2\<bar>
   \<and> current_envelope_position
        (updateEnvelopePosition (SignalProcessor_init\<lparr>current_envelope_position := 1\<rparr>) 2) = \<bar>2\<bar>"
  using envelope_update_is_max [of "SignalProcessor_init\<lparr>current_envelope_position := 1\<rparr>" 2]
  by (simp add: SignalProcessor_init_def)

text \<open>
  Rounding a positive number in the normal range of \<open>float\<close> or of \<open>double\<close> changes it by
  at most the factor \<open>1 - 2^-24\<close> downwards and \<open>1 + 2^-24\<close> upwards.
\<close>

lemma fp_round_pos_bounds:
  assumes "2 powr of_int emin \<le> x"
  shows "x * (1 - 2 powr (- real p)) \<le> fp_round p emin x"
    and "fp_round p emin x \<le> x * (1 + 2 powr (- real p))"
proof -
  have x: "0 < x" using assms powr_gt_zero [of 2 "of_int emin"] by linarith
  then have "2 powr of_int emin \<le> \<bar>x\<bar>" using assms by simp
  from fp_round_rel_error [OF this, of p]
  have "\<bar>fp_round p emin x - x\<bar> \<le> 2 powr (- real p) * x" using x by simp
  then show "x * (1 - 2 powr (- real p)) \<le> fp_round p emin x"
    and "fp_round p emin x \<le> x * (1 + 2 powr (- real p))"
    by (simp_all add: algebra_simps abs_le_iff)
qed

lemma float32_round_bounds:
  assumes "2 powr (- 126) \<le> x"
  shows "x * (1 - 1 / 2 ^ 24) \<le> float32_round x"
    and "float32_round x \<le> x * (1 + 1 / 2 ^ 24)"
proof -
  have a: "2 powr of_int (- 126) \<le> x" using assms by simp
  have u: "(2::real) powr (- real (24::nat)) = 1 / 2 ^ 24" by (simp add: powr_minus_divide)
  show "x * (1 - 1 / 2 ^ 24) \<le> float32_round x"
    using fp_round_pos_bounds(1) [OF a, of 24] by (simp only: u float32_round_def)
  show "float32_round x \<le> x * (1 + 1 / 2 ^ 24)"
    using fp_round_pos_bounds(2) [OF a, of 24] by (simp only: u float32_round_def)
qed

lemma float64_round_bounds:
  assumes "2 powr (- 126) \<le> x"
  shows "x * (1 - 1 / 2 ^ 24) \<le> float64_round x"
    and "float64_round x \<le> x * (1 + 1 / 2 ^ 24)"
proof -
  have x: "0 < x" using assms powr_gt_zero [of 2 "- 126"] by linarith
  have "(2::real) powr of_int (- 1022) \<le> 2 powr (- 126)" by (intro powr_mono) simp_all
  then have a: "2 powr of_int (- 1022) \<le> x" using assms by linarith
  have u: "(2::real) powr (- real (53::nat)) \<le> 1 / 2 ^ 24"
  proof -
    have "(2::real) powr (- real (53::nat)) \<le> 2 powr (- 24)" by (intro powr_mono) simp_all
    then show ?thesis by (simp add: powr_minus_divide)
  qed
  have "x * (1 - 1 / 2 ^ 24) \<le> x * (1 - 2 powr (- real (53::nat)))"
    using u x by (intro mult_left_mono) simp_all
  also have "\<dots> \<le> float64_round x"
    using fp_round_pos_bounds(1) [OF a, of 53] by (simp only: float64_round_def)
  finally show "x * (1 - 1 / 2 ^ 24) \<le> float64_round x" .
  have "float64_round x \<le> x * (1 + 2 powr (- real (53::nat)))"
    using fp_round_pos_bounds(2) [OF a, of 53] by (simp only: float64_round_def)
  also have "\<dots> \<le> x * (1 + 1 / 2 ^ 24)"
    using u x by (intro mult_left_mono) simp_all
  finally show "float64_round x \<le> x * (1 + 1 / 2 ^ 24)" .
qed

text \<open>
  A power of two whose exponent is at most \<open>2^-24\<close> in magnitude lies within the same
  factors of one.
\<close>

lemma two_powr_small:
  fixes t :: real
  assumes "\<bar>t\<bar> \<le> 1 / 2 ^ 24"
  shows "1 - 1 / 2 ^ 24 \<le> 2 powr t" and "2 powr t \<le> 1 + 1 / 2 ^ 24"
proof -
  define N :: nat where "N = 2 ^ 24"
  have N: "0 < N" "real N = 2 ^ 24" by (simp_all add: N_def)
  let ?r = "(2::real) powr (1 / real N)"
  have "1 + real N * (1 / real N) \<le> (1 + 1 / real N) ^ N"
  proof (rule Bernoulli_inequality)
    have "(0::real) \<le> 1 / real N" by simp
    then show "- 1 \<le> 1 / real N" by linarith
  qed
  then have two: "2 \<le> (1 + 1 / real N) ^ N" using N(1) by simp
  have "?r ^ N = ?r powr real N" by (simp add: powr_realpow)
  also have "\<dots> = 2 powr (1 / real N * real N)" by (simp only: powr_powr)
  also have "\<dots> = 2" using N(1) by simp
  finally have "?r ^ N \<le> (1 + 1 / real N) ^ N" using two by simp
  then have r: "?r \<le> 1 + 1 / real N"
    using N(1) power_mono_iff [of ?r "1 + 1 / real N" N] by simp
  have t: "t \<le> 1 / real N" "- (1 / real N) \<le> t" using assms by (simp_all add: N(2) abs_le_iff)
  have "2 powr t \<le> ?r" using t(1) by (intro powr_mono) simp_all
  then have "2 powr t \<le> 1 + 1 / real N" using r by (rule order_trans)
  then show "2 powr t \<le> 1 + 1 / 2 ^ 24" unfolding N(2) .
  have rpos: "0 < ?r" by simp
  have pos: "0 < 1 + 1 / real N" by (simp add: add_pos_nonneg)
  have ppos: "0 < (1 + 1 / real N) * ?r" using pos rpos by (rule mult_pos_pos)
  have "1 - 1 / real N \<le> 1 / (1 + 1 / real N)"
  proof -
    have "(1 - 1 / real N) * (1 + 1 / real N) = 1 - (1 / real N) ^ 2"
      by (simp add: algebra_simps power2_eq_square)
    also have "\<dots> \<le> 1" by simp
    finally have "(1 - 1 / real N) * (1 + 1 / real N) \<le> 1" .
    then show ?thesis using pos by (simp only: pos_le_divide_eq)
  qed
  also have "\<dots> \<le> 1 / ?r" using r ppos by (intro divide_left_mono) simp_all
  also have "\<dots> = 2 powr (- (1 / real N))" by (simp add: powr_minus_divide)
  also have "\<dots> \<le> 2 powr t" using t(2) by (intro powr_mono) simp_all
  finally show "1 - 1 / 2 ^ 24 \<le> 2 powr t" unfolding N(2) .
qed


text \<open>
  The stored decay coefficient for a whole number \<open>n\<close> of samples: the quotient \<open>-1/n\<close> is
  rounded to \<open>float\<close>, the power to \<open>double\<close>, and the result to \<open>float\<close>.
\<close>

lemma half_ge_tiny: "(2::real) powr (- 126) \<le> 1 / 2 * (1 - 1 / 2 ^ 24) ^ 2"
proof -
  have "(2::real) powr (- 126) \<le> 2 powr (- 2)" by (intro powr_mono) simp_all
  also have "\<dots> = 1 / 4" by (simp add: powr_minus_divide)
  also have "\<dots> \<le> 1 / 2 * (1 - 1 / 2 ^ 24) ^ 2" by (simp add: power2_eq_square)
  finally show ?thesis .
qed

lemma decay_float_bounds:
  fixes n :: nat
  assumes "0 < n" and "real n \<le> 2 ^ 126"
  shows "2 powr (- 1 / real n) * (1 - 1 / 2 ^ 24) ^ 3
           \<le> float32_round (float64_round (2 powr float32_round (- 1 / real n)))"
    and "float32_round (float64_round (2 powr float32_round (- 1 / real n)))
           \<le> 2 powr (- 1 / real n) * (1 + 1 / 2 ^ 24) ^ 3"
proof -
  define u :: real where "u = 1 / 2 ^ 24"
  define a :: real where "a = - 1 / real n"
  define y where "y = float32_round a"
  define w where "w = 2 powr a"
  define v where "v = 2 powr y"
  define v64 where "v64 = float64_round v"
  have u: "0 \<le> u" "u \<le> 1" "0 \<le> 1 - u" by (simp_all add: u_def)
  have n1: "1 \<le> real n" using assms(1) by simp
  have absa: "\<bar>a\<bar> = 1 / real n" using assms(1) by (simp add: a_def)
  have "1 / 2 ^ 126 \<le> 1 / real n"
    using assms by (intro divide_left_mono) simp_all
  then have "2 powr of_int (- 126) \<le> \<bar>a\<bar>"
    by (simp add: absa powr_minus_divide)
  from fp_round_rel_error [OF this, of 24]
  have "\<bar>y - a\<bar> \<le> u * (1 / real n)"
    by (simp add: y_def float32_round_def u_def absa powr_minus_divide)
  also have "\<dots> \<le> u * 1"
    using n1 u(1) by (intro mult_left_mono) (simp_all add: divide_le_eq_1)
  finally have t: "\<bar>y - a\<bar> \<le> 1 / 2 ^ 24" by (simp add: u_def)
  have vw: "v = w * 2 powr (y - a)"
    by (simp add: v_def w_def powr_add [symmetric])
  have wpos: "0 < w" by (simp add: w_def)
  have "- 1 \<le> a" using n1 by (simp add: a_def divide_le_eq_1)
  then have "2 powr (- 1) \<le> w" unfolding w_def by (intro powr_mono) simp_all
  then have whalf: "1 / 2 \<le> w" by (simp add: powr_minus_divide)
  have v_lo: "w * (1 - u) \<le> v"
    unfolding vw u_def using two_powr_small(1) [OF t] wpos by (intro mult_left_mono) simp_all
  have v_hi: "v \<le> w * (1 + u)"
    unfolding vw u_def using two_powr_small(2) [OF t] wpos by (intro mult_left_mono) simp_all
  have tiny: "2 powr (- 126) \<le> 1 / 2 * (1 - u) ^ 2"
    unfolding u_def by (rule half_ge_tiny)
  have "1 / 2 * (1 - u) ^ 2 \<le> 1 / 2 * (1 - u)"
    using u by (simp add: power2_eq_square mult_left_le)
  also have "\<dots> \<le> w * (1 - u)" using whalf u(3) by (intro mult_right_mono) simp_all
  finally have half_lo: "1 / 2 * (1 - u) ^ 2 \<le> w * (1 - u)" .
  have vtiny: "2 powr (- 126) \<le> v" using tiny half_lo v_lo by linarith
  have vpos: "0 < v" by (simp add: v_def)
  have v64_lo: "v * (1 - u) \<le> v64" and v64_hi: "v64 \<le> v * (1 + u)"
    unfolding v64_def u_def using float64_round_bounds [OF vtiny] by simp_all
  have c0: "0 \<le> (1 - u) * (1 - u)" by simp
  have "1 / 2 * ((1 - u) * (1 - u)) \<le> w * ((1 - u) * (1 - u))"
    using whalf c0 by (rule mult_right_mono)
  then have "1 / 2 * (1 - u) ^ 2 \<le> w * (1 - u) * (1 - u)"
    by (simp only: power2_eq_square mult.assoc)
  also have "\<dots> \<le> v * (1 - u)" using v_lo u(3) by (intro mult_right_mono) simp_all
  finally have "1 / 2 * (1 - u) ^ 2 \<le> v64" using v64_lo by linarith
  then have v64tiny: "2 powr (- 126) \<le> v64" using tiny by linarith
  have d_lo: "v64 * (1 - u) \<le> float32_round v64" and d_hi: "float32_round v64 \<le> v64 * (1 + u)"
    unfolding u_def using float32_round_bounds [OF v64tiny] by simp_all
  have "w * (1 - u) ^ 3 = w * (1 - u) * (1 - u) * (1 - u)"
    by (simp add: power3_eq_cube)
  also have "\<dots> \<le> v * (1 - u) * (1 - u)"
    using v_lo u(3) by (intro mult_right_mono) simp_all
  also have "\<dots> \<le> v64 * (1 - u)"
    using v64_lo u(3) by (intro mult_right_mono) simp_all
  also have "\<dots> \<le> float32_round v64" by (rule d_lo)
  finally show "2 powr (- 1 / real n) * (1 - 1 / 2 ^ 24) ^ 3
           \<le> float32_round (float64_round (2 powr float32_round (- 1 / real n)))"
    by (simp only: w_def a_def u_def v64_def v_def y_def)
  have "float32_round v64 \<le> v64 * (1 + u)" by (rule d_hi)
  also have "\<dots> \<le> v * (1 + u) * (1 + u)"
    using v64_hi u(1) by (intro mult_right_mono) simp_all
  also have "\<dots> \<le> w * (1 + u) * (1 + u) * (1 + u)"
    using v_hi u(1) by (intro mult_right_mono) simp_all
  also have "\<dots> = w * (1 + u) ^ 3" by (simp add: power3_eq_cube)
  finally show "float32_round (float64_round (2 powr float32_round (- 1 / real n)))
           \<le> 2 powr (- 1 / real n) * (1 + 1 / 2 ^ 24) ^ 3"
    by (simp only: w_def a_def u_def v64_def v_def y_def)
qed


text \<open>
  One update in the rounded reading as a single assignment, and the level after a run of
  zero samples: each of them multiplies the level by the decay coefficient and rounds the
  product to \<open>float\<close>.
\<close>

lemma float32_round_zero: "float32_round 0 = 0"
  by (simp add: float32_round_def fp_round_def)

lemma updateEnvelopePosition_float_max:
  "updateEnvelopePosition_float s x =
     s\<lparr>current_envelope_position :=
         max (float32_round (current_envelope_position s * decay s)) \<bar>float32_round x\<bar>\<rparr>"
  by (simp add: updateEnvelopePosition_float_def Let_def max_def)

lemma zero_samples_float_bounds:
  fixes w :: real
  assumes d: "w * (1 - 1 / 2 ^ 24) ^ 3 \<le> decay s" "decay s \<le> w * (1 + 1 / 2 ^ 24) ^ 3"
    and w: "0 < w" "w \<le> 1"
    and normal: "2 powr (- 126) \<le> current_envelope_position s * (w * (1 - 1 / 2 ^ 24) ^ 4) ^ n"
    and jn: "j \<le> n"
  shows "decay (((\<lambda>s. updateEnvelopePosition_float s 0) ^^ j) s) = decay s
    \<and> current_envelope_position s * (w * (1 - 1 / 2 ^ 24) ^ 4) ^ j
        \<le> current_envelope_position (((\<lambda>s. updateEnvelopePosition_float s 0) ^^ j) s)
    \<and> current_envelope_position (((\<lambda>s. updateEnvelopePosition_float s 0) ^^ j) s)
        \<le> current_envelope_position s * (w * (1 + 1 / 2 ^ 24) ^ 4) ^ j"
  using jn
proof (induction j)
  case 0
  show ?case by simp
next
  case (Suc j)
  define u :: real where "u = 1 / 2 ^ 24"
  define b where "b = w * (1 - u) ^ 4"
  define B where "B = w * (1 + u) ^ 4"
  define L where "L = current_envelope_position s"
  define sk where "sk = ((\<lambda>s. updateEnvelopePosition_float s 0) ^^ j) s"
  define l where "l = current_envelope_position sk"
  have u: "0 \<le> u" "0 \<le> 1 - u" "1 - u \<le> 1" by (simp_all add: u_def)
  have jn: "j \<le> n" "Suc j \<le> n" using Suc.prems by simp_all
  have IH: "decay sk = decay s" "L * b ^ j \<le> l" "l \<le> L * B ^ j"
    using Suc.IH [OF jn(1)] by (simp_all add: sk_def l_def L_def b_def B_def u_def)
  have b0: "0 < b" unfolding b_def using w(1) by (simp add: u_def)
  have "(1 - u) ^ 4 \<le> 1" using u by (intro power_le_one) simp_all
  then have "b \<le> w * 1" unfolding b_def using w(1) by (intro mult_left_mono) simp_all
  then have b1: "b \<le> 1" using w(2) by simp
  have B0: "0 < B" unfolding B_def using w(1) by (simp add: u_def add_pos_nonneg)
  have bn: "0 < b ^ n" using b0 by simp
  have normal': "2 powr (- 126) \<le> L * b ^ n"
    using normal by (simp only: L_def b_def u_def)
  have Lpos: "0 < L"
  proof (rule ccontr)
    assume "\<not> 0 < L"
    then have "L * b ^ n \<le> 0" using bn by (simp add: mult_le_0_iff)
    moreover have "(0::real) < 2 powr (- 126)" by simp
    ultimately show False using normal' by linarith
  qed
  have l0: "0 \<le> l" using IH(2) Lpos b0 by (meson less_imp_le mult_nonneg_nonneg order_trans zero_le_power)
  have dl: "w * (1 - u) ^ 3 \<le> decay s" and dh: "decay s \<le> w * (1 + u) ^ 3"
    using d by (simp_all only: u_def)
  have d0: "0 \<le> decay s"
  proof -
    have "0 \<le> w * (1 - u) ^ 3" using w(1) u by simp
    then show ?thesis using dl by linarith
  qed
  have "(1 - u) ^ 4 = (1 - u) ^ 3 * (1 - u)" by (simp add: power_Suc2 [symmetric] numeral_eq_Suc)
  also have "\<dots> \<le> (1 - u) ^ 3 * 1" using u by (intro mult_left_mono) simp_all
  finally have p43: "(1 - u) ^ 4 \<le> (1 - u) ^ 3" by simp
  have "L * b ^ Suc j = L * b ^ j * b" by simp
  also have "\<dots> \<le> L * b ^ j * (w * (1 - u) ^ 3)"
    unfolding b_def using p43 w(1) Lpos b0
    by (intro mult_left_mono mult_nonneg_nonneg) (simp_all add: b_def)
  also have "\<dots> \<le> l * (w * (1 - u) ^ 3)"
    using IH(2) w(1) u by (intro mult_right_mono) simp_all
  also have "\<dots> \<le> l * decay s"
    using dl l0 by (intro mult_left_mono) simp_all
  finally have prod_lo: "L * b ^ Suc j \<le> l * decay s" .
  have "b ^ n \<le> b ^ Suc j"
    using jn(2) b0 b1 by (intro power_decreasing) simp_all
  then have "L * b ^ n \<le> L * b ^ Suc j"
    using Lpos by (intro mult_left_mono) simp_all
  then have norm: "2 powr (- 126) \<le> l * decay s"
    using normal' prod_lo by linarith
  have r_lo: "l * decay s * (1 - u) \<le> float32_round (l * decay s)"
    and r_hi: "float32_round (l * decay s) \<le> l * decay s * (1 + u)"
    unfolding u_def using float32_round_bounds [OF norm] by simp_all
  have pos: "0 \<le> float32_round (l * decay s)"
  proof -
    have "0 \<le> l * decay s * (1 - u)" using l0 d0 u by simp
    then show ?thesis using r_lo by linarith
  qed
  have step: "updateEnvelopePosition_float sk 0
      = sk\<lparr>current_envelope_position := float32_round (l * decay s)\<rparr>"
    using pos by (simp add: updateEnvelopePosition_float_max float32_round_zero l_def IH(1) max_def)
  have unf: "((\<lambda>s. updateEnvelopePosition_float s 0) ^^ Suc j) s = updateEnvelopePosition_float sk 0"
    by (simp add: sk_def)
  have lev: "current_envelope_position (((\<lambda>s. updateEnvelopePosition_float s 0) ^^ Suc j) s)
      = float32_round (l * decay s)"
    by (simp only: unf step) simp
  have dec: "decay (((\<lambda>s. updateEnvelopePosition_float s 0) ^^ Suc j) s) = decay s"
    by (simp only: unf step) (simp add: IH(1))
  have "L * b ^ Suc j = L * b ^ j * (w * (1 - u) ^ 3) * (1 - u)"
    by (simp add: b_def numeral_eq_Suc algebra_simps)
  also have "\<dots> \<le> l * (w * (1 - u) ^ 3) * (1 - u)"
    using IH(2) w(1) u by (intro mult_right_mono) simp_all
  also have "\<dots> \<le> l * decay s * (1 - u)"
    using dl l0 u by (intro mult_right_mono mult_left_mono) simp_all
  also have "\<dots> \<le> float32_round (l * decay s)" by (rule r_lo)
  finally have lo: "L * b ^ Suc j \<le> float32_round (l * decay s)" .
  have "float32_round (l * decay s) \<le> l * decay s * (1 + u)" by (rule r_hi)
  also have "\<dots> \<le> l * (w * (1 + u) ^ 3) * (1 + u)"
    using dh l0 u by (intro mult_right_mono mult_left_mono) simp_all
  also have "\<dots> \<le> L * B ^ j * (w * (1 + u) ^ 3) * (1 + u)"
    using IH(3) w(1) u by (intro mult_right_mono) simp_all
  also have "\<dots> = L * B ^ Suc j"
    by (simp add: B_def numeral_eq_Suc algebra_simps)
  finally have hi: "float32_round (l * decay s) \<le> L * B ^ Suc j" .
  from dec lo hi show ?case
    by (simp only: lev L_def b_def B_def u_def)
qed

text \<open>
  The values at the sampling frequency \<open>8000\<close> and the recovery time \<open>0.001\<close>. The argument
  \<open>0.001\<close> becomes the \<open>float\<close> \<open>8589935 / 2^33\<close>, which is above the \<open>double\<close> constant
  \<open>0.001\<close>; its product with \<open>8000\<close> rounds to the \<open>float\<close> \<open>8\<close>; the \<open>double\<close> nearest to
  \<open>2^(-1/8)\<close> is \<open>8259638134547591 / 2^53\<close>, and the \<open>float\<close> nearest to that is
  \<open>15384775 / 2^24\<close>, the stored decay coefficient.
\<close>

lemma float32_round_half_one:
  assumes "1 / 2 \<le> x" "x < 1" "of_int K - 1 / 2 < x * 2 ^ 24" "x * 2 ^ 24 < of_int K + 1 / 2"
  shows "float32_round x = of_int K / 2 ^ 24"
proof -
  have "fp_round 24 (- 126) x = of_int (round_half_even (x / (1 / 2 ^ 24))) * (1 / 2 ^ 24)"
    using assms(1,2) by (intro fp_round_at [where e = "- 1" and lo = "1 / 2"])
      (simp_all add: powr_minus_divide)
  moreover have "round_half_even (x / (1 / 2 ^ 24)) = K"
    using assms(3,4) by (intro round_half_even_eqI) simp_all
  ultimately show ?thesis by (simp add: float32_round_def)
qed

lemma float64_round_half_one:
  assumes "1 / 2 \<le> x" "x < 1" "of_int K - 1 / 2 < x * 2 ^ 53" "x * 2 ^ 53 < of_int K + 1 / 2"
  shows "float64_round x = of_int K / 2 ^ 53"
proof -
  have "fp_round 53 (- 1022) x = of_int (round_half_even (x / (1 / 2 ^ 53))) * (1 / 2 ^ 53)"
    using assms(1,2) by (intro fp_round_at [where e = "- 1" and lo = "1 / 2"])
      (simp_all add: powr_minus_divide)
  moreover have "round_half_even (x / (1 / 2 ^ 53)) = K"
    using assms(3,4) by (intro round_half_even_eqI) simp_all
  ultimately show ?thesis by (simp add: float64_round_def)
qed

lemma num_samples_8000:
  "float32_round (float64_round
      (float32_round (max (float32_round (1 / 1000)) (float64_round (1 / 1000))) * 8000)) = 8"
proof -
  have a: "float32_round (1 / 1000) = 8589935 / 2 ^ 33"
  proof -
    have "fp_round 24 (- 126) (1 / 1000) =
        of_int (round_half_even ((1 / 1000) / (1 / 2 ^ 33))) * (1 / 2 ^ 33)"
      by (rule fp_round_at [where e = "- 10" and lo = "1 / 2 ^ 10"]) (simp_all add: powr_minus_divide)
    moreover have "round_half_even ((1 / 1000) / (1 / 2 ^ 33)) = 8589935"
      by (rule round_half_even_eqI) simp_all
    ultimately show ?thesis by (simp add: float32_round_def)
  qed
  have b: "float64_round (1 / 1000) = 4611686018427388 / 2 ^ 62"
  proof -
    have "fp_round 53 (- 1022) (1 / 1000) =
        of_int (round_half_even ((1 / 1000) / (1 / 2 ^ 62))) * (1 / 2 ^ 62)"
      by (rule fp_round_at [where e = "- 10" and lo = "1 / 2 ^ 10"]) (simp_all add: powr_minus_divide)
    moreover have "round_half_even ((1 / 1000) / (1 / 2 ^ 62)) = 4611686018427388"
      by (rule round_half_even_eqI) simp_all
    ultimately show ?thesis by (simp add: float64_round_def)
  qed
  have c: "max (8589935 / 2 ^ 33) (4611686018427388 / 2 ^ 62) = (8589935 / 2 ^ 33 :: real)"
    by simp
  have d: "float32_round (8589935 / 2 ^ 33) = 8589935 / 2 ^ 33"
    using fp_round_exact [of 8589935 24 "- 126" "- 33"]
    by (simp add: float32_round_def powr_minus_divide)
  have e: "float64_round (8589935 / 2 ^ 33 * 8000) = 1073741875 / 2 ^ 27"
    using fp_round_exact [of 1073741875 53 "- 1022" "- 27"]
    by (simp add: float64_round_def powr_minus_divide)
  have f: "float32_round (1073741875 / 2 ^ 27) = 8"
  proof -
    have "fp_round 24 (- 126) (1073741875 / 2 ^ 27) =
        of_int (round_half_even ((1073741875 / 2 ^ 27) / (1 / 2 ^ 20))) * (1 / 2 ^ 20)"
      by (rule fp_round_at [where e = 3 and lo = 8]) (simp_all add: powr_minus_divide)
    moreover have "round_half_even ((1073741875 / 2 ^ 27) / (1 / 2 ^ 20)) = 8388608"
      by (rule round_half_even_eqI) simp_all
    ultimately show ?thesis by (simp add: float32_round_def)
  qed
  show ?thesis by (simp only: a b c d e f)
qed

lemma decay_eighth:
  "float32_round (float64_round (2 powr float32_round (- 1 / 8))) = 15384775 / 2 ^ 24"
proof -
  define v :: real where "v = 2 powr (- 1 / 8)"
  have y: "float32_round (- 1 / 8) = - 1 / 8"
    using fp_round_exact [of "- 1" 24 "- 126" "- 3"]
    by (simp add: float32_round_def powr_minus_divide)
  have v0: "0 \<le> v" by (simp add: v_def)
  have v8: "v ^ 8 = 1 / 2"
    using half_life [of 8] by (simp add: v_def)
  have lo: "16519276269095181 / 2 ^ 54 < v"
  proof (rule power_less_imp_less_base)
    show "(16519276269095181 / 2 ^ 54) ^ 8 < v ^ 8" by (simp add: v8 power_divide)
    show "0 \<le> v" by (rule v0)
  qed
  have hi: "v < 16519276269095183 / 2 ^ 54"
  proof (rule power_less_imp_less_base)
    show "v ^ 8 < (16519276269095183 / 2 ^ 54) ^ 8" by (simp add: v8 power_divide)
    show "(0::real) \<le> 16519276269095183 / 2 ^ 54" by simp
  qed
  have "float64_round v = of_int 8259638134547591 / 2 ^ 53"
    using lo hi by (intro float64_round_half_one) simp_all
  then have v64: "float64_round v = 8259638134547591 / 2 ^ 53" by simp
  have "float32_round (8259638134547591 / 2 ^ 53) = of_int 15384775 / 2 ^ 24"
    by (rule float32_round_half_one) simp_all
  then have v32: "float32_round (8259638134547591 / 2 ^ 53) = 15384775 / 2 ^ 24" by simp
  have "float32_round (float64_round (2 powr float32_round (- 1 / 8)))
      = float32_round (float64_round v)"
    unfolding y v_def ..
  also have "\<dots> = 15384775 / 2 ^ 24"
    unfolding v64 v32 ..
  finally show ?thesis .
qed

text \<open>
  The level after a peak of \<open>1\<close> and one to eight zero samples, as numerators over \<open>2^24\<close>:
  \<open>15384775\<close>, \<open>14107901\<close>, \<open>12937002\<close>, \<open>11863283\<close>, \<open>10878679\<close>, \<open>9975793\<close>, \<open>9147843\<close>,
  \<open>8388609\<close>.
\<close>

lemma float32_round_product_2:
  "float32_round (15384775 / 2 ^ 24 * (15384775 / 2 ^ 24)) = 14107901 / 2 ^ 24"
  using float32_round_half_one [of "15384775 / 2 ^ 24 * (15384775 / 2 ^ 24)" 14107901] by simp

lemma float32_round_product_3:
  "float32_round (14107901 / 2 ^ 24 * (15384775 / 2 ^ 24)) = 12937002 / 2 ^ 24"
  using float32_round_half_one [of "14107901 / 2 ^ 24 * (15384775 / 2 ^ 24)" 12937002] by simp

lemma float32_round_product_4:
  "float32_round (12937002 / 2 ^ 24 * (15384775 / 2 ^ 24)) = 11863283 / 2 ^ 24"
  using float32_round_half_one [of "12937002 / 2 ^ 24 * (15384775 / 2 ^ 24)" 11863283] by simp

lemma float32_round_product_5:
  "float32_round (11863283 / 2 ^ 24 * (15384775 / 2 ^ 24)) = 10878679 / 2 ^ 24"
  using float32_round_half_one [of "11863283 / 2 ^ 24 * (15384775 / 2 ^ 24)" 10878679] by simp

lemma float32_round_product_6:
  "float32_round (10878679 / 2 ^ 24 * (15384775 / 2 ^ 24)) = 9975793 / 2 ^ 24"
  using float32_round_half_one [of "10878679 / 2 ^ 24 * (15384775 / 2 ^ 24)" 9975793] by simp

lemma float32_round_product_7:
  "float32_round (9975793 / 2 ^ 24 * (15384775 / 2 ^ 24)) = 9147843 / 2 ^ 24"
  using float32_round_half_one [of "9975793 / 2 ^ 24 * (15384775 / 2 ^ 24)" 9147843] by simp

lemma float32_round_product_8:
  "float32_round (9147843 / 2 ^ 24 * (15384775 / 2 ^ 24)) = 8388609 / 2 ^ 24"
  using float32_round_half_one [of "9147843 / 2 ^ 24 * (15384775 / 2 ^ 24)" 8388609] by simp


lemma float32_round_one: "float32_round 1 = 1"
  using fp_round_exact [of 1 24 "- 126" 0] by (simp add: float32_round_def)

lemma float32_round_product_1:
  "float32_round (1 * (15384775 / 2 ^ 24)) = 15384775 / 2 ^ 24"
  using fp_round_exact [of 15384775 24 "- 126" "- 24"]
  by (simp add: float32_round_def powr_minus_divide)

lemma zero_sample_step:
  assumes "decay s = d \<and> current_envelope_position s = a" "float32_round (a * d) = b" "0 \<le> b"
  shows "decay (updateEnvelopePosition_float s 0) = d
    \<and> current_envelope_position (updateEnvelopePosition_float s 0) = b"
  using assms by (simp add: updateEnvelopePosition_float_max float32_round_zero)

lemma recovery_8000:
  assumes "SignalProcessor.sampling_frequency s = 8000"
  shows "setRecoveryTimeValue_float s (1 / 1000) = s\<lparr>decay := 15384775 / 2 ^ 24\<rparr>"
proof -
  have c: "(0.001::real) = 1 / 1000" by simp
  show ?thesis
    unfolding setRecoveryTimeValue_float_def Let_def assms c num_samples_8000 decay_eighth ..
qed

lemma levels_8000:
  "current_envelope_position (updateEnvelopePosition_float (setRecoveryTimeValue_float (setSamplingFrequency SignalProcessor_init 8000) (1 / 1000)) 1) = 1"
  "current_envelope_position (((\<lambda>s. updateEnvelopePosition_float s 0) ^^ 8) (updateEnvelopePosition_float (setRecoveryTimeValue_float (setSamplingFrequency SignalProcessor_init 8000) (1 / 1000)) 1)) = 8388609 / 2 ^ 24"
proof -
  let ?f = "\<lambda>s. updateEnvelopePosition_float s 0"
  define s0 where "s0 = setSamplingFrequency SignalProcessor_init 8000"
  define s1 where "s1 = updateEnvelopePosition_float (setRecoveryTimeValue_float s0 (1 / 1000)) 1"
  have sf: "SignalProcessor.sampling_frequency s0 = 8000"
    by (simp add: s0_def setSamplingFrequency_unfold)
  have c0: "current_envelope_position s0 = 0"
    by (simp add: s0_def setSamplingFrequency_unfold SignalProcessor_init_def)
  have r: "setRecoveryTimeValue_float s0 (1 / 1000) = s0\<lparr>decay := 15384775 / 2 ^ 24\<rparr>"
    using sf by (rule recovery_8000)
  have p0: "decay s1 = 15384775 / 2 ^ 24 \<and> current_envelope_position s1 = 1"
    unfolding s1_def r
    by (simp add: updateEnvelopePosition_float_max c0 float32_round_zero float32_round_one)
  have p1: "decay (?f (s1)) = 15384775 / 2 ^ 24
      \<and> current_envelope_position (?f (s1)) = 15384775 / 2 ^ 24"
    by (rule zero_sample_step [OF p0 float32_round_product_1]) simp
  have p2: "decay (?f (?f (s1))) = 15384775 / 2 ^ 24
      \<and> current_envelope_position (?f (?f (s1))) = 14107901 / 2 ^ 24"
    by (rule zero_sample_step [OF p1 float32_round_product_2]) simp
  have p3: "decay (?f (?f (?f (s1)))) = 15384775 / 2 ^ 24
      \<and> current_envelope_position (?f (?f (?f (s1)))) = 12937002 / 2 ^ 24"
    by (rule zero_sample_step [OF p2 float32_round_product_3]) simp
  have p4: "decay (?f (?f (?f (?f (s1))))) = 15384775 / 2 ^ 24
      \<and> current_envelope_position (?f (?f (?f (?f (s1))))) = 11863283 / 2 ^ 24"
    by (rule zero_sample_step [OF p3 float32_round_product_4]) simp
  have p5: "decay (?f (?f (?f (?f (?f (s1)))))) = 15384775 / 2 ^ 24
      \<and> current_envelope_position (?f (?f (?f (?f (?f (s1)))))) = 10878679 / 2 ^ 24"
    by (rule zero_sample_step [OF p4 float32_round_product_5]) simp
  have p6: "decay (?f (?f (?f (?f (?f (?f (s1))))))) = 15384775 / 2 ^ 24
      \<and> current_envelope_position (?f (?f (?f (?f (?f (?f (s1))))))) = 9975793 / 2 ^ 24"
    by (rule zero_sample_step [OF p5 float32_round_product_6]) simp
  have p7: "decay (?f (?f (?f (?f (?f (?f (?f (s1)))))))) = 15384775 / 2 ^ 24
      \<and> current_envelope_position (?f (?f (?f (?f (?f (?f (?f (s1)))))))) = 9147843 / 2 ^ 24"
    by (rule zero_sample_step [OF p6 float32_round_product_7]) simp
  have p8: "decay (?f (?f (?f (?f (?f (?f (?f (?f (s1))))))))) = 15384775 / 2 ^ 24
      \<and> current_envelope_position (?f (?f (?f (?f (?f (?f (?f (?f (s1))))))))) = 8388609 / 2 ^ 24"
    by (rule zero_sample_step [OF p7 float32_round_product_8]) simp
  have "(?f ^^ 8) s1 = ?f (?f (?f (?f (?f (?f (?f (?f s1)))))))"
    by (simp add: eval_nat_numeral)
  with p8 have p: "current_envelope_position ((?f ^^ 8) s1) = 8388609 / 2 ^ 24"
    by simp
  show "current_envelope_position (updateEnvelopePosition_float (setRecoveryTimeValue_float (setSamplingFrequency SignalProcessor_init 8000) (1 / 1000)) 1) = 1"
    using p0 unfolding s1_def s0_def by simp
  show "current_envelope_position (((\<lambda>s. updateEnvelopePosition_float s 0) ^^ 8) (updateEnvelopePosition_float (setRecoveryTimeValue_float (setSamplingFrequency SignalProcessor_init 8000) (1 / 1000)) 1)) = 8388609 / 2 ^ 24"
    using p unfolding s1_def s0_def .
qed

lemma normal_8000: "(2::real) powr (- 126) \<le> 1 / 2 * (1 - 1 / 2 ^ 24) ^ (4 * 8)"
proof -
  have "(2::real) powr (- 126) \<le> 2 powr (- 2)" by (intro powr_mono) simp_all
  also have "\<dots> = 1 / 4" by (simp add: powr_minus_divide)
  also have "\<dots> \<le> 1 / 2 * (1 - 1 / 2 ^ 24) ^ (4 * 8)" by (simp add: power_divide)
  finally show ?thesis .
qed

text \<open>
  C3 (as the source has it). \<open>setRecoveryTimeValue\<close> raises the recovery time to at least
  \<open>0.001\<close>, multiplies it by the sampling frequency and stores the product as a \<open>float\<close>
  number of samples; the decay coefficient is \<open>2\<close> to the power \<open>-1\<close> over that number,
  rounded to \<open>float\<close>. One update sets the level to the maximum of the rounded product of
  level and decay and of \<open>abs(sample)\<close>. Where the stored number of samples is a whole
  number \<open>n\<close> between \<open>1\<close> and \<open>2^126\<close>, the exact coefficient \<open>2^(-1/n)\<close> to the power \<open>n\<close>
  is one half, the stored coefficient is within the factors \<open>(1 - 2^-24)^3\<close> and
  \<open>(1 + 2^-24)^3\<close> of it, and, with \<open>L\<close> the level that one update with any sample leaves,
  the level after \<open>n\<close> further zero samples is within the factors \<open>(1 - 2^-24)^(4n)\<close> and
  \<open>(1 + 2^-24)^(4n)\<close> of \<open>L/2\<close>, provided the lower of these bounds is in the normal range
  of \<open>float\<close>.
\<close>

theorem recovery_time_half_life:
  "setRecoveryTimeValue_float s T =
     s\<lparr>decay := float32_round (float64_round (2 powr float32_round (- 1 /
        float32_round (float64_round
          (float32_round (max (float32_round T) (float64_round 0.001))
             * SignalProcessor.sampling_frequency s)))))\<rparr>
   \<and> updateEnvelopePosition_float s' x' =
       s'\<lparr>current_envelope_position :=
            max (float32_round (current_envelope_position s' * decay s')) \<bar>float32_round x'\<bar>\<rparr>
   \<and> (float32_round (float64_round
          (float32_round (max (float32_round T) (float64_round 0.001))
             * SignalProcessor.sampling_frequency s)) = real n
        \<and> 0 < n \<and> real n \<le> 2 ^ 126 \<longrightarrow>
        (2 powr (- 1 / real n)) ^ n = 1 / 2
        \<and> 2 powr (- 1 / real n) * (1 - 1 / 2 ^ 24) ^ 3 \<le> decay (setRecoveryTimeValue_float s T)
        \<and> decay (setRecoveryTimeValue_float s T) \<le> 2 powr (- 1 / real n) * (1 + 1 / 2 ^ 24) ^ 3
        \<and> (2 powr (- 126)
               \<le> current_envelope_position
                    (updateEnvelopePosition_float (setRecoveryTimeValue_float s T) x) / 2
                  * (1 - 1 / 2 ^ 24) ^ (4 * n) \<longrightarrow>
             current_envelope_position
                 (updateEnvelopePosition_float (setRecoveryTimeValue_float s T) x) / 2
               * (1 - 1 / 2 ^ 24) ^ (4 * n)
               \<le> current_envelope_position
                    (((\<lambda>s. updateEnvelopePosition_float s 0) ^^ n)
                       (updateEnvelopePosition_float (setRecoveryTimeValue_float s T) x))
             \<and> current_envelope_position
                    (((\<lambda>s. updateEnvelopePosition_float s 0) ^^ n)
                       (updateEnvelopePosition_float (setRecoveryTimeValue_float s T) x))
               \<le> current_envelope_position
                    (updateEnvelopePosition_float (setRecoveryTimeValue_float s T) x) / 2
                  * (1 + 1 / 2 ^ 24) ^ (4 * n)))"
proof (intro conjI impI)
  show "setRecoveryTimeValue_float s T =
     s\<lparr>decay := float32_round (float64_round (2 powr float32_round (- 1 /
        float32_round (float64_round
          (float32_round (max (float32_round T) (float64_round 0.001))
             * SignalProcessor.sampling_frequency s)))))\<rparr>"
    by (simp add: setRecoveryTimeValue_float_def Let_def)
  show "updateEnvelopePosition_float s' x' =
       s'\<lparr>current_envelope_position :=
            max (float32_round (current_envelope_position s' * decay s')) \<bar>float32_round x'\<bar>\<rparr>"
    by (rule updateEnvelopePosition_float_max)
next
  assume h: "float32_round (float64_round
          (float32_round (max (float32_round T) (float64_round 0.001))
             * SignalProcessor.sampling_frequency s)) = real n
        \<and> 0 < n \<and> real n \<le> 2 ^ 126"
  then have n: "0 < n" "real n \<le> 2 ^ 126" by simp_all
  show "(2 powr (- 1 / real n)) ^ n = 1 / 2" using n(1) by (rule half_life)
next
  assume h: "float32_round (float64_round
          (float32_round (max (float32_round T) (float64_round 0.001))
             * SignalProcessor.sampling_frequency s)) = real n
        \<and> 0 < n \<and> real n \<le> 2 ^ 126"
  then have n: "0 < n" "real n \<le> 2 ^ 126" by simp_all
  have dec: "decay (setRecoveryTimeValue_float s T)
      = float32_round (float64_round (2 powr float32_round (- 1 / real n)))"
    using h by (simp add: setRecoveryTimeValue_float_def Let_def)
  show "2 powr (- 1 / real n) * (1 - 1 / 2 ^ 24) ^ 3 \<le> decay (setRecoveryTimeValue_float s T)"
    unfolding dec using n by (rule decay_float_bounds)
next
  assume h: "float32_round (float64_round
          (float32_round (max (float32_round T) (float64_round 0.001))
             * SignalProcessor.sampling_frequency s)) = real n
        \<and> 0 < n \<and> real n \<le> 2 ^ 126"
  then have n: "0 < n" "real n \<le> 2 ^ 126" by simp_all
  have dec: "decay (setRecoveryTimeValue_float s T)
      = float32_round (float64_round (2 powr float32_round (- 1 / real n)))"
    using h by (simp add: setRecoveryTimeValue_float_def Let_def)
  show "decay (setRecoveryTimeValue_float s T) \<le> 2 powr (- 1 / real n) * (1 + 1 / 2 ^ 24) ^ 3"
    unfolding dec using n by (rule decay_float_bounds)
next
  assume h: "float32_round (float64_round
          (float32_round (max (float32_round T) (float64_round 0.001))
             * SignalProcessor.sampling_frequency s)) = real n
        \<and> 0 < n \<and> real n \<le> 2 ^ 126"
    and normal: "2 powr (- 126)
               \<le> current_envelope_position
                    (updateEnvelopePosition_float (setRecoveryTimeValue_float s T) x) / 2
                  * (1 - 1 / 2 ^ 24) ^ (4 * n)"
  then have n: "0 < n" "real n \<le> 2 ^ 126" by simp_all
  define w :: real where "w = 2 powr (- 1 / real n)"
  define s1 where "s1 = updateEnvelopePosition_float (setRecoveryTimeValue_float s T) x"
  have dec: "decay (setRecoveryTimeValue_float s T)
      = float32_round (float64_round (2 powr float32_round (- 1 / real n)))"
    using h by (simp add: setRecoveryTimeValue_float_def Let_def)
  have dec1: "decay s1 = decay (setRecoveryTimeValue_float s T)"
    by (simp add: s1_def updateEnvelopePosition_float_max)
  have d: "w * (1 - 1 / 2 ^ 24) ^ 3 \<le> decay s1" "decay s1 \<le> w * (1 + 1 / 2 ^ 24) ^ 3"
    unfolding dec1 dec w_def using n by (rule decay_float_bounds)+
  have w: "0 < w" "w \<le> 1"
  proof -
    show "0 < w" by (simp add: w_def)
    have "2 powr (- 1 / real n) \<le> 2 powr 0" by (intro powr_mono) simp_all
    then show "w \<le> 1" by (simp add: w_def)
  qed
  have wn: "w ^ n = 1 / 2" unfolding w_def using n(1) by (rule half_life)
  have pw: "(w * c ^ 4) ^ n = 1 / 2 * c ^ (4 * n)" for c :: real
    by (simp add: power_mult_distrib wn power_mult)
  have normal': "2 powr (- 126)
      \<le> current_envelope_position s1 * (w * (1 - 1 / 2 ^ 24) ^ 4) ^ n"
    using normal by (simp add: pw s1_def)
  from zero_samples_float_bounds [OF d w normal' order_refl]
  have lo: "current_envelope_position s1 * (w * (1 - 1 / 2 ^ 24) ^ 4) ^ n
        \<le> current_envelope_position (((\<lambda>s. updateEnvelopePosition_float s 0) ^^ n) s1)"
    and hi: "current_envelope_position (((\<lambda>s. updateEnvelopePosition_float s 0) ^^ n) s1)
        \<le> current_envelope_position s1 * (w * (1 + 1 / 2 ^ 24) ^ 4) ^ n"
    by blast+
  show "current_envelope_position
                 (updateEnvelopePosition_float (setRecoveryTimeValue_float s T) x) / 2
               * (1 - 1 / 2 ^ 24) ^ (4 * n)
               \<le> current_envelope_position
                    (((\<lambda>s. updateEnvelopePosition_float s 0) ^^ n)
                       (updateEnvelopePosition_float (setRecoveryTimeValue_float s T) x))"
    using lo by (simp add: pw s1_def)
  show "current_envelope_position
                    (((\<lambda>s. updateEnvelopePosition_float s 0) ^^ n)
                       (updateEnvelopePosition_float (setRecoveryTimeValue_float s T) x))
               \<le> current_envelope_position
                    (updateEnvelopePosition_float (setRecoveryTimeValue_float s T) x) / 2
                  * (1 + 1 / 2 ^ 24) ^ (4 * n)"
    using hi by (simp add: pw s1_def)
qed

text \<open>
  The sampling frequency \<open>8000\<close> and the recovery time \<open>0.001\<close>, that is \<open>n = 8\<close>, after a
  peak of \<open>1\<close> on the initial level \<open>0\<close>.
\<close>

theorem recovery_time_half_life_witness:
  "float32_round (float64_round
      (float32_round (max (float32_round (1 / 1000)) (float64_round 0.001))
         * SignalProcessor.sampling_frequency (setSamplingFrequency SignalProcessor_init 8000))) = real 8
   \<and> 2 powr (- 126) \<le> current_envelope_position (updateEnvelopePosition_float (setRecoveryTimeValue_float (setSamplingFrequency SignalProcessor_init 8000) (1 / 1000)) 1) / 2 * (1 - 1 / 2 ^ 24) ^ (4 * 8)
   \<and> (2 powr (- 1 / real 8)) ^ 8 = 1 / 2
   \<and> 2 powr (- 1 / real 8) * (1 - 1 / 2 ^ 24) ^ 3
        \<le> decay (setRecoveryTimeValue_float (setSamplingFrequency SignalProcessor_init 8000) (1 / 1000))
   \<and> decay (setRecoveryTimeValue_float (setSamplingFrequency SignalProcessor_init 8000) (1 / 1000))
        \<le> 2 powr (- 1 / real 8) * (1 + 1 / 2 ^ 24) ^ 3
   \<and> current_envelope_position (updateEnvelopePosition_float (setRecoveryTimeValue_float (setSamplingFrequency SignalProcessor_init 8000) (1 / 1000)) 1) / 2 * (1 - 1 / 2 ^ 24) ^ (4 * 8)
        \<le> current_envelope_position (((\<lambda>s. updateEnvelopePosition_float s 0) ^^ 8) (updateEnvelopePosition_float (setRecoveryTimeValue_float (setSamplingFrequency SignalProcessor_init 8000) (1 / 1000)) 1))
   \<and> current_envelope_position (((\<lambda>s. updateEnvelopePosition_float s 0) ^^ 8) (updateEnvelopePosition_float (setRecoveryTimeValue_float (setSamplingFrequency SignalProcessor_init 8000) (1 / 1000)) 1))
        \<le> current_envelope_position (updateEnvelopePosition_float (setRecoveryTimeValue_float (setSamplingFrequency SignalProcessor_init 8000) (1 / 1000)) 1) / 2 * (1 + 1 / 2 ^ 24) ^ (4 * 8)"
proof -
  have c: "(0.001::real) = 1 / 1000" by simp
  have sf: "SignalProcessor.sampling_frequency (setSamplingFrequency SignalProcessor_init 8000) = 8000"
    by (simp add: setSamplingFrequency_unfold)
  have h1: "float32_round (float64_round
      (float32_round (max (float32_round (1 / 1000)) (float64_round 0.001))
         * SignalProcessor.sampling_frequency (setSamplingFrequency SignalProcessor_init 8000))) = real 8"
    unfolding sf c num_samples_8000 by simp
  have h2: "2 powr (- 126) \<le> current_envelope_position (updateEnvelopePosition_float (setRecoveryTimeValue_float (setSamplingFrequency SignalProcessor_init 8000) (1 / 1000)) 1) / 2 * (1 - 1 / 2 ^ 24) ^ (4 * 8)"
    unfolding levels_8000(1) using normal_8000 by simp
  have h3: "0 < (8::nat)" "real 8 \<le> 2 ^ 126" by simp_all
  show ?thesis
    using recovery_time_half_life [of "setSamplingFrequency SignalProcessor_init 8000" "1 / 1000"
        "setSamplingFrequency SignalProcessor_init 8000" 0 8 1] h1 h2 h3 by blast
qed

text \<open>
  At the sampling frequency \<open>8000\<close> and the recovery time \<open>0.001\<close> the number of samples is
  \<open>8\<close>. The stored decay coefficient is \<open>15384775 / 2^24\<close>, whose eighth power is not one
  half. A peak of \<open>1\<close> sets the level to \<open>1\<close>, and eight zero samples later the level is
  \<open>8388609 / 2^24\<close>, which is \<open>1/2 + 2^-24\<close> and not \<open>1/2\<close>.
\<close>

theorem recovery_time_half_life_not_exact:
  "float32_round (float64_round
      (float32_round (max (float32_round (1 / 1000)) (float64_round 0.001))
         * SignalProcessor.sampling_frequency (setSamplingFrequency SignalProcessor_init 8000))) = 8
   \<and> decay (setRecoveryTimeValue_float (setSamplingFrequency SignalProcessor_init 8000) (1 / 1000)) = 15384775 / 2 ^ 24
   \<and> (15384775 / 2 ^ 24) ^ 8 \<noteq> (1 / 2 :: real)
   \<and> current_envelope_position (updateEnvelopePosition_float (setRecoveryTimeValue_float (setSamplingFrequency SignalProcessor_init 8000) (1 / 1000)) 1) = 1
   \<and> current_envelope_position (((\<lambda>s. updateEnvelopePosition_float s 0) ^^ 8) (updateEnvelopePosition_float (setRecoveryTimeValue_float (setSamplingFrequency SignalProcessor_init 8000) (1 / 1000)) 1)) = 8388609 / 2 ^ 24
   \<and> 8388609 / 2 ^ 24 \<noteq> (1 / 2 :: real)"
proof -
  have c: "(0.001::real) = 1 / 1000" by simp
  have sf: "SignalProcessor.sampling_frequency (setSamplingFrequency SignalProcessor_init 8000) = 8000"
    by (simp add: setSamplingFrequency_unfold)
  have h1: "float32_round (float64_round
      (float32_round (max (float32_round (1 / 1000)) (float64_round 0.001))
         * SignalProcessor.sampling_frequency (setSamplingFrequency SignalProcessor_init 8000))) = 8"
    unfolding sf c num_samples_8000 ..
  have h2: "decay (setRecoveryTimeValue_float (setSamplingFrequency SignalProcessor_init 8000) (1 / 1000)) = 15384775 / 2 ^ 24"
    unfolding recovery_8000 [OF sf] by simp
  have h3: "(15384775 / 2 ^ 24) ^ 8 \<noteq> (1 / 2 :: real)" by (simp add: power_divide)
  have h4: "8388609 / 2 ^ 24 \<noteq> (1 / 2 :: real)" by simp
  show ?thesis using h1 h2 h3 h4 levels_8000 by blast
qed

section \<open>The range mapper\<close>






section \<open>The control-rate decimator\<close>

text \<open>The counters are untouched by the parameter update and advance by one per sample.\<close>

lemma updateMathParams_counters:
  "samples_per_midi_message (updateMathParams p) = samples_per_midi_message p"
  "elapsed_since_midi (updateMathParams p) = elapsed_since_midi p"
  "midi_message_rate (updateMathParams p) = midi_message_rate p"
  by (simp_all add: updateMathParams_def Let_def)

lemma processBlock_sample_counter:
  "samples_per_midi_message (fst (processBlock_sample p fr)) = samples_per_midi_message p"
  "elapsed_since_midi (fst (processBlock_sample p fr)) =
     (if elapsed_since_midi p + 1 = samples_per_midi_message p then 0 else elapsed_since_midi p + 1)"
  "(snd (processBlock_sample p fr) \<noteq> None) = (elapsed_since_midi p + 1 = samples_per_midi_message p)"
  by (simp_all add: processBlock_sample_def Let_def)

lemma dvd_step:
  fixes S c :: int
  assumes "0 \<le> c" "c < S"
  shows "(S dvd c + 1) = (c + 1 = S)"
  using assms(1,2) zdvd_imp_le by force

lemma dvd_shift:
  fixes S c n :: int
  shows "(S dvd (if c + 1 = S then 0 else c + 1) + n) = (S dvd c + 1 + n)"
proof (cases "c + 1 = S")
  case True
  then have "c + 1 + n = S + n" by simp
  then show ?thesis using True by (simp only: if_True dvd_add_triv_left_iff) simp
next
  case False
  then show ?thesis by simp
qed

lemma div_count_step:
  fixes S m :: int
  assumes "0 < S"
  shows "(m + 1) div S = m div S + (if S dvd m + 1 then 1 else 0)"
proof (cases "S dvd m + 1")
  case True
  then obtain t where t: "m + 1 = S * t" by (auto elim: dvdE)
  then have "(m + 1) div S = t" using assms by simp
  moreover have "m = S * (t - 1) + (S - 1)" using t by (simp add: algebra_simps)
  then have "m div S = t - 1"
    using assms by (intro int_div_pos_eq [where r = "S - 1"]) simp_all
  ultimately show ?thesis using True by simp
next
  case False
  have r: "0 \<le> m mod S" "m mod S < S" using assms by simp_all
  have "m mod S + 1 \<noteq> S"
  proof
    assume e: "m mod S + 1 = S"
    have "m + 1 = S * (m div S) + (m mod S + 1)" by simp
    also have "\<dots> = S * (m div S + 1)" by (simp only: e) (simp add: algebra_simps)
    finally have "S dvd m + 1" by simp
    with False show False by simp
  qed
  with r have "m mod S + 1 < S" by simp
  moreover have "m + 1 = S * (m div S) + (m mod S + 1)" by simp
  ultimately have "(m + 1) div S = m div S"
    using r by (intro int_div_pos_eq [where r = "m mod S + 1"]) simp_all
  then show ?thesis using False by simp
qed

lemma count_multiples:
  fixes S c :: int
  assumes "0 < S"
  shows "int (length (filter (\<lambda>b. b) (map (\<lambda>i. S dvd c + int i + 1) [0..<N])))
           = (c + int N) div S - c div S"
proof (induction N)
  case 0
  show ?case by simp
next
  case (Suc N)
  let ?f = "\<lambda>i. S dvd c + int i + 1"
  have step: "(c + int (Suc N)) div S = (c + int N) div S + (if ?f N then 1 else 0)"
    using div_count_step [OF assms, of "c + int N"] by (simp add: ac_simps)
  have "int (length (filter (\<lambda>b. b) (map ?f [0..<Suc N])))
          = int (length (filter (\<lambda>b. b) (map ?f [0..<N]))) + (if ?f N then 1 else 0)"
    by simp
  also have "\<dots> = (c + int N) div S - c div S + (if ?f N then 1 else 0)"
    by (simp only: Suc)
  also have "\<dots> = (c + int (Suc N)) div S - c div S"
    by (simp only: step)
  finally show ?case .
qed


lemma processBlock_loop_counter:
  assumes "0 \<le> elapsed_since_midi p" "elapsed_since_midi p < samples_per_midi_message p"
  shows "samples_per_midi_message (fst (processBlock_loop p frs)) = samples_per_midi_message p
    \<and> elapsed_since_midi (fst (processBlock_loop p frs))
        = (elapsed_since_midi p + int (length frs)) mod samples_per_midi_message p
    \<and> map (\<lambda>m. m \<noteq> None) (snd (processBlock_loop p frs))
        = map (\<lambda>i. samples_per_midi_message p dvd elapsed_since_midi p + int i + 1)
            [0..<length frs]"
  using assms
proof (induction frs arbitrary: p)
  case Nil
  then show ?case by simp
next
  case (Cons fr frs)
  let ?S = "samples_per_midi_message p"
  let ?c = "elapsed_since_midi p"
  let ?p1 = "fst (processBlock_sample p fr)"
  let ?c1 = "if ?c + 1 = ?S then 0 else ?c + 1"
  have S1: "samples_per_midi_message ?p1 = ?S"
    and c1: "elapsed_since_midi ?p1 = ?c1"
    and e1: "(snd (processBlock_sample p fr) \<noteq> None) = (?c + 1 = ?S)"
    by (simp_all only: processBlock_sample_counter)
  have rng: "0 \<le> elapsed_since_midi ?p1" "elapsed_since_midi ?p1 < samples_per_midi_message ?p1"
    using Cons.prems by (simp_all add: S1 c1)
  note IH = Cons.IH [OF rng, unfolded S1 c1]
  have unf: "processBlock_loop p (fr # frs)
              = (fst (processBlock_loop ?p1 frs),
                 snd (processBlock_sample p fr) # snd (processBlock_loop ?p1 frs))"
    by (simp add: case_prod_beta Let_def)
  have a: "samples_per_midi_message (fst (processBlock_loop p (fr # frs))) = ?S"
    by (simp only: unf fst_conv IH [THEN conjunct1])
  have "elapsed_since_midi (fst (processBlock_loop p (fr # frs)))
          = (?c1 + int (length frs)) mod ?S"
    by (simp only: unf fst_conv IH [THEN conjunct2, THEN conjunct1])
  also have "\<dots> = (?c + 1 + int (length frs)) mod ?S"
  proof (cases "?c + 1 = ?S")
    case True
    have "(?S + int (length frs)) mod ?S = (0 + int (length frs)) mod ?S" by simp
    then show ?thesis using True by simp
  next
    case False
    then show ?thesis by simp
  qed
  finally have b: "elapsed_since_midi (fst (processBlock_loop p (fr # frs)))
          = (?c + int (length (fr # frs))) mod ?S"
    by (simp add: ac_simps)
  have hd: "(?S dvd ?c + int 0 + 1) = (?c + 1 = ?S)"
    using dvd_step [of ?c ?S] Cons.prems by simp
  have tl: "(?S dvd ?c1 + int i + 1) = (?S dvd ?c + int (Suc i) + 1)" for i
    using dvd_shift [of ?S ?c "int i + 1"] by (simp add: ac_simps)
  have "map (\<lambda>m. m \<noteq> None) (snd (processBlock_loop p (fr # frs)))
          = (?c + 1 = ?S) # map (\<lambda>i. ?S dvd ?c1 + int i + 1) [0..<length frs]"
    by (simp only: unf snd_conv list.map e1 IH [THEN conjunct2, THEN conjunct2])
  also have "\<dots> = map (\<lambda>i. ?S dvd ?c + int i + 1) [0..<length (fr # frs)]"
    by (simp only: length_Cons map_upt_Suc hd tl)
  finally show ?case using a b by blast
qed


lemma processBlock_counter:
  assumes "0 \<le> elapsed_since_midi p" "elapsed_since_midi p < samples_per_midi_message p"
  shows "samples_per_midi_message (fst (processBlock p frs)) = samples_per_midi_message p
    \<and> elapsed_since_midi (fst (processBlock p frs))
        = (elapsed_since_midi p + int (length frs)) mod samples_per_midi_message p
    \<and> map (\<lambda>m. m \<noteq> None) (snd (processBlock p frs))
        = map (\<lambda>i. samples_per_midi_message p dvd elapsed_since_midi p + int i + 1)
            [0..<length frs]"
  using processBlock_loop_counter [of "updateMathParams p" frs] assms
  by (simp only: processBlock_def updateMathParams_counters)

lemma map_upt_append:
  "map f [0..<m + n] = map f [0..<m] @ map (\<lambda>i. f (m + i)) [0..<n]"
proof -
  have "[0..<m + n] = [0..<m] @ [m..<m + n]"
    using upt_add_eq_append [of 0 m n] by simp
  moreover have "[m..<m + n] = map (\<lambda>i. m + i) [0..<n]"
    using map_add_upt [of m n] by (simp add: ac_simps)
  ultimately show ?thesis by (simp add: o_def)
qed

lemma dvd_mod_shift:
  fixes S a b :: int
  shows "(S dvd a mod S + b) = (S dvd a + b)"
  by (simp add: dvd_eq_mod_eq_0 mod_add_left_eq)

lemma processBlocks_counter:
  assumes "0 \<le> elapsed_since_midi p" "elapsed_since_midi p < samples_per_midi_message p"
  shows "samples_per_midi_message (fst (processBlocks p bufs)) = samples_per_midi_message p
    \<and> elapsed_since_midi (fst (processBlocks p bufs))
        = (elapsed_since_midi p + int (length (concat bufs))) mod samples_per_midi_message p
    \<and> map (\<lambda>m. m \<noteq> None) (snd (processBlocks p bufs))
        = map (\<lambda>i. samples_per_midi_message p dvd elapsed_since_midi p + int i + 1)
            [0..<length (concat bufs)]"
  using assms
proof (induction bufs arbitrary: p)
  case Nil
  then show ?case by simp
next
  case (Cons b bufs)
  let ?S = "samples_per_midi_message p"
  let ?c = "elapsed_since_midi p"
  let ?p1 = "fst (processBlock p b)"
  let ?c1 = "(?c + int (length b)) mod ?S"
  note B = processBlock_counter [OF Cons.prems, of b]
  have S1: "samples_per_midi_message ?p1 = ?S" by (rule B [THEN conjunct1])
  have c1: "elapsed_since_midi ?p1 = ?c1" by (rule B [THEN conjunct2, THEN conjunct1])
  have Spos: "0 < ?S" using Cons.prems by simp
  have rng: "0 \<le> elapsed_since_midi ?p1" "elapsed_since_midi ?p1 < samples_per_midi_message ?p1"
    using Spos by (simp_all add: S1 c1)
  note IH = Cons.IH [OF rng, unfolded S1 c1]
  have unf: "processBlocks p (b # bufs)
              = (fst (processBlocks ?p1 bufs),
                 snd (processBlock p b) @ snd (processBlocks ?p1 bufs))"
    by (simp add: case_prod_beta Let_def)
  have a: "samples_per_midi_message (fst (processBlocks p (b # bufs))) = ?S"
    by (simp only: unf fst_conv IH [THEN conjunct1])
  have "elapsed_since_midi (fst (processBlocks p (b # bufs)))
          = (?c1 + int (length (concat bufs))) mod ?S"
    by (simp only: unf fst_conv IH [THEN conjunct2, THEN conjunct1])
  also have "\<dots> = (?c + int (length b) + int (length (concat bufs))) mod ?S"
    by (simp only: mod_add_left_eq)
  finally have b: "elapsed_since_midi (fst (processBlocks p (b # bufs)))
          = (?c + int (length (concat (b # bufs)))) mod ?S"
    by (simp add: ac_simps)
  have tl: "(?S dvd ?c1 + int i + 1) = (?S dvd ?c + int (length b + i) + 1)" for i
    using dvd_mod_shift [of ?S "?c + int (length b)" "int i + 1"] by (simp add: ac_simps)
  have "map (\<lambda>m. m \<noteq> None) (snd (processBlocks p (b # bufs)))
          = map (\<lambda>i. ?S dvd ?c + int i + 1) [0..<length b]
            @ map (\<lambda>i. ?S dvd ?c1 + int i + 1) [0..<length (concat bufs)]"
    by (simp only: unf snd_conv map_append B [THEN conjunct2, THEN conjunct2]
          IH [THEN conjunct2, THEN conjunct2])
  also have "\<dots> = map (\<lambda>i. ?S dvd ?c + int i + 1) [0..<length b + length (concat bufs)]"
    by (simp only: tl map_upt_append [where f = "\<lambda>i. ?S dvd ?c + int i + 1"])
  finally have c: "map (\<lambda>m. m \<noteq> None) (snd (processBlocks p (b # bufs)))
          = map (\<lambda>i. ?S dvd ?c + int i + 1) [0..<length (concat (b # bufs))]"
    by simp
  from a b c show ?case by blast
qed


lemma prepareToPlay_counters:
  "samples_per_midi_message (prepareToPlay p Fs spb) = int_cast (Fs / midi_message_rate p)"
  "elapsed_since_midi (prepareToPlay p Fs spb) = 0"
  "elapsed_since_drawer (prepareToPlay p Fs spb) = 0"
  by (simp_all add: prepareToPlay_def Let_def)

text \<open>
  C5. After \<open>prepareToPlay\<close> with a sampling frequency \<open>Fs\<close> and a message rate \<open>R\<close> with
  \<open>0 < R \<le> Fs\<close> (and \<open>Fs / R\<close> within the range of \<open>int\<close>), the period is
  \<open>S = floor(Fs / R) \<ge> 1\<close> and the counter
  \<open>elapsed_since_midi\<close> is \<open>0\<close>. Every sample adds one to the counter; a message is sent
  exactly when the counter then equals the period, and the counter is set back to \<open>0\<close>.
  Over the \<open>N\<close> samples of any sequence of buffers handed to \<open>processBlock\<close>, the sample
  number \<open>i + 1\<close> sends a message exactly when \<open>S\<close> divides \<open>i + 1\<close>, so
  \<open>floor(N / S)\<close> messages are sent, and the counter ends at \<open>N mod S\<close>.
\<close>

theorem decimator_emission_count:
  assumes "0 < midi_message_rate p" and "midi_message_rate p \<le> Fs"
      and "int_representable (Fs / midi_message_rate p)"
  shows "samples_per_midi_message (prepareToPlay p Fs spb) = \<lfloor>Fs / midi_message_rate p\<rfloor>
    \<and> elapsed_since_midi (prepareToPlay p Fs spb) = 0
    \<and> (\<forall>q fr.
          elapsed_since_midi (fst (processBlock_sample q fr))
            = (if elapsed_since_midi q + 1 = samples_per_midi_message q then 0
               else elapsed_since_midi q + 1)
          \<and> (snd (processBlock_sample q fr) \<noteq> None)
            = (elapsed_since_midi q + 1 = samples_per_midi_message q))
    \<and> length (snd (processBlocks (prepareToPlay p Fs spb) bufs)) = length (concat bufs)
    \<and> (\<forall>i < length (concat bufs).
          (snd (processBlocks (prepareToPlay p Fs spb) bufs) ! i \<noteq> None)
            = (\<lfloor>Fs / midi_message_rate p\<rfloor> dvd int i + 1))
    \<and> int (length (filter (\<lambda>m. m \<noteq> None) (snd (processBlocks (prepareToPlay p Fs spb) bufs))))
        = int (length (concat bufs)) div \<lfloor>Fs / midi_message_rate p\<rfloor>
    \<and> elapsed_since_midi (fst (processBlocks (prepareToPlay p Fs spb) bufs))
        = int (length (concat bufs)) mod \<lfloor>Fs / midi_message_rate p\<rfloor>"
proof -
  let ?p0 = "prepareToPlay p Fs spb"
  let ?S = "\<lfloor>Fs / midi_message_rate p\<rfloor>"
  let ?N = "length (concat bufs)"
  let ?outs = "snd (processBlocks ?p0 bufs)"
  have q: "1 \<le> Fs / midi_message_rate p" using assms by simp
  then have Spos: "1 \<le> ?S" by simp
  have "0 \<le> Fs / midi_message_rate p" using q by simp
  then have S: "samples_per_midi_message ?p0 = ?S"
    using assms(3) by (simp add: prepareToPlay_counters int_cast_eq truncation_def)
  have c: "elapsed_since_midi ?p0 = 0" by (rule prepareToPlay_counters)
  have rng: "0 \<le> elapsed_since_midi ?p0" "elapsed_since_midi ?p0 < samples_per_midi_message ?p0"
    using Spos by (simp_all add: S c)
  note B = processBlocks_counter [OF rng, of bufs, unfolded S c]
  have pat: "map (\<lambda>m. m \<noteq> None) ?outs = map (\<lambda>i. ?S dvd 0 + int i + 1) [0..<?N]"
    by (rule B [THEN conjunct2, THEN conjunct2])
  have len: "length ?outs = ?N"
    using arg_cong [OF pat, of length] by simp
  have nth: "(?outs ! i \<noteq> None) = (?S dvd int i + 1)" if "i < ?N" for i
  proof -
    have "map (\<lambda>m. m \<noteq> None) ?outs ! i = map (\<lambda>i. ?S dvd 0 + int i + 1) [0..<?N] ! i"
      by (simp only: pat)
    then show ?thesis using that len by simp
  qed
  have "length (filter (\<lambda>m. m \<noteq> None) ?outs)
          = length (filter (\<lambda>b. b) (map (\<lambda>m. m \<noteq> None) ?outs))"
    by (simp add: filter_map o_def)
  also have "\<dots> = length (filter (\<lambda>b. b) (map (\<lambda>i. ?S dvd 0 + int i + 1) [0..<?N]))"
    by (simp only: pat)
  finally have "int (length (filter (\<lambda>m. m \<noteq> None) ?outs)) = (0 + int ?N) div ?S - 0 div ?S"
    using count_multiples [of ?S 0 ?N] Spos by simp
  then have cnt: "int (length (filter (\<lambda>m. m \<noteq> None) ?outs)) = int ?N div ?S" by simp
  have fin: "elapsed_since_midi (fst (processBlocks ?p0 bufs)) = int ?N mod ?S"
    using B [THEN conjunct2, THEN conjunct1] by simp
  have step: "\<forall>q fr.
          elapsed_since_midi (fst (processBlock_sample q fr))
            = (if elapsed_since_midi q + 1 = samples_per_midi_message q then 0
               else elapsed_since_midi q + 1)
          \<and> (snd (processBlock_sample q fr) \<noteq> None)
            = (elapsed_since_midi q + 1 = samples_per_midi_message q)"
    by (simp only: processBlock_sample_counter) simp
  from S c step len nth cnt fin show ?thesis by blast
qed

theorem decimator_emission_count_witness:
  "0 < midi_message_rate (EnvelopeFollowerAudioProcessor_init 0 0 0)
   \<and> midi_message_rate (EnvelopeFollowerAudioProcessor_init 0 0 0) \<le> 30
   \<and> int_representable (30 / midi_message_rate (EnvelopeFollowerAudioProcessor_init 0 0 0))
   \<and> samples_per_midi_message (prepareToPlay (EnvelopeFollowerAudioProcessor_init 0 0 0) 30 512) = 3
   \<and> (2::nat) < length (concat [[[0, 0], [1, 1]], [[0, 0], [1, 1], [0, 0], [1, 1], [0::real, 0]]])
   \<and> snd (processBlocks (prepareToPlay (EnvelopeFollowerAudioProcessor_init 0 0 0) 30 512)
                [[[0, 0], [1, 1]], [[0, 0], [1, 1], [0, 0], [1, 1], [0, 0]]]) ! 2 \<noteq> None
   \<and> int (length (filter (\<lambda>m. m \<noteq> None)
        (snd (processBlocks (prepareToPlay (EnvelopeFollowerAudioProcessor_init 0 0 0) 30 512)
                [[[0, 0], [1, 1]], [[0, 0], [1, 1], [0, 0], [1, 1], [0, 0]]])))) = 2"
proof -
  let ?bufs = "[[[0, 0], [1, 1]], [[0, 0], [1, 1], [0, 0], [1, 1], [0::real, 0]]]"
  have h: "0 < midi_message_rate (EnvelopeFollowerAudioProcessor_init 0 0 0)"
      "midi_message_rate (EnvelopeFollowerAudioProcessor_init 0 0 0) \<le> 30"
      "int_representable (30 / midi_message_rate (EnvelopeFollowerAudioProcessor_init 0 0 0))"
    by (simp_all add: EnvelopeFollowerAudioProcessor_init_def int_representable_def)
  have r: "\<lfloor>30 / midi_message_rate (EnvelopeFollowerAudioProcessor_init 0 0 0)\<rfloor> = 3"
    by (simp add: EnvelopeFollowerAudioProcessor_init_def)
  have i: "(2::nat) < length (concat ?bufs)" by simp
  note T = decimator_emission_count [OF h, of 512 ?bufs, unfolded r]
  have a: "samples_per_midi_message (prepareToPlay (EnvelopeFollowerAudioProcessor_init 0 0 0) 30 512) = 3"
    using T by blast
  have "(snd (processBlocks (prepareToPlay (EnvelopeFollowerAudioProcessor_init 0 0 0) 30 512) ?bufs) ! 2
          \<noteq> None) = ((3::int) dvd int 2 + 1)"
    using T i by blast
  then have b: "snd (processBlocks (prepareToPlay (EnvelopeFollowerAudioProcessor_init 0 0 0) 30 512) ?bufs) ! 2
          \<noteq> None"
    by simp
  have "int (length (filter (\<lambda>m. m \<noteq> None)
        (snd (processBlocks (prepareToPlay (EnvelopeFollowerAudioProcessor_init 0 0 0) 30 512) ?bufs))))
        = int (length (concat ?bufs)) div 3"
    using T by blast
  then have c: "int (length (filter (\<lambda>m. m \<noteq> None)
        (snd (processBlocks (prepareToPlay (EnvelopeFollowerAudioProcessor_init 0 0 0) 30 512) ?bufs)))) = 2"
    by simp
  from h a i b c show ?thesis by blast
qed

section \<open>Calls before preparation and invalid sampling frequencies\<close>

text \<open>
  C6 (as the source has it). \<open>takeInSample\<close> checks nothing: in every state, prepared or
  not, it returns the new state and never a condition. It stores \<open>sample * gain\<close> as the
  previous input of the lowpass filter and the lowpass output as its previous output, and it
  computes with the coefficients \<open>k\<close> and \<open>alpha\<close> that the two filters hold, leaving them
  as they are.
\<close>

theorem takeInSample_has_no_prepared_check:
  "takeInSample_result s x = Inr (takeInSample s x)
   \<and> prev_input (lowFilter (takeInSample s x)) = x * gain s
   \<and> prev_output (lowFilter (takeInSample s x)) = fst (calculate_lpf (lowFilter s) (x * gain s))
   \<and> k (lowFilter (takeInSample s x)) = k (lowFilter s)
   \<and> alpha (lowFilter (takeInSample s x)) = alpha (lowFilter s)
   \<and> k (highFilter (takeInSample s x)) = k (highFilter s)
   \<and> alpha (highFilter (takeInSample s x)) = alpha (highFilter s)"
  by (simp add: takeInSample_result_def takeInSample_unfold updateEnvelopePosition_max calculate_frame)

text \<open>
  On the freshly constructed \<open>SignalProcessor\<close>, whose lowpass coefficients are the initial
  \<open>k = 0\<close> and \<open>alpha = 0\<close>, \<open>takeInSample\<close> with the sample \<open>1\<close> does not end in
  \<open>UsedBeforePrepared\<close>: it returns a state in which the lowpass filter has taken the sample
  in.
\<close>

theorem takeInSample_before_prepare_returns:
  "takeInSample_result SignalProcessor_init 1 \<noteq> Inl UsedBeforePrepared
   \<and> k (lowFilter SignalProcessor_init) = 0
   \<and> alpha (lowFilter SignalProcessor_init) = 0
   \<and> prev_input (lowFilter SignalProcessor_init) = 0
   \<and> prev_input (lowFilter (takeInSample SignalProcessor_init 1)) = 1"
  by (simp add: takeInSample_result_def takeInSample_unfold updateEnvelopePosition_max calculate_frame
        SignalProcessor_init_def Filter_init_def)

text \<open>
  C7 (as the source has it). \<open>prepareToPlay\<close> checks nothing: for every sampling frequency
  \<open>f\<close>, also \<open>f \<le> 0\<close>, it returns the new state and never a condition. The new state
  holds \<open>f\<close> as the sampling frequency of the signal processor and of both filters, both
  \<open>theta_c\<close> are recomputed as \<open>2 * pi * cutoff_frequency / f\<close>, a division by \<open>f\<close>, and
  the message period is the truncation of \<open>f / midi_message_rate\<close> where that quotient is
  in the range of \<open>int\<close>.
\<close>

theorem prepareToPlay_accepts_any_frequency:
  "prepareToPlay_result p f n = Inr (prepareToPlay p f n)
   \<and> SignalProcessor.sampling_frequency (signalProcessor (prepareToPlay p f n)) = f
   \<and> Filter.sampling_frequency (lowFilter (signalProcessor (prepareToPlay p f n))) = f
   \<and> Filter.sampling_frequency (highFilter (signalProcessor (prepareToPlay p f n))) = f
   \<and> theta_c (lowFilter (signalProcessor (prepareToPlay p f n)))
       = 2 * Filter_pi * cutoff_frequency (lowFilter (signalProcessor p)) / f
   \<and> theta_c (highFilter (signalProcessor (prepareToPlay p f n)))
       = 2 * Filter_pi * cutoff_frequency (highFilter (signalProcessor p)) / f
   \<and> lowFilter (signalProcessor (prepareToPlay p f n))
       = calc_coeff ((lowFilter (signalProcessor p))\<lparr>Filter.sampling_frequency := f\<rparr>)
   \<and> highFilter (signalProcessor (prepareToPlay p f n))
       = calc_coeff ((highFilter (signalProcessor p))\<lparr>Filter.sampling_frequency := f\<rparr>)
   \<and> (int_representable (f / midi_message_rate p) \<longrightarrow>
        samples_per_midi_message (prepareToPlay p f n) = truncation (f / midi_message_rate p))"
  by (simp add: prepareToPlay_result_def prepareToPlay_unfold setSamplingFrequency_unfold
        calc_coeff_fields int_cast_eq)

theorem prepareToPlay_accepts_any_frequency_witness:
  "int_representable (- 44100 / midi_message_rate (EnvelopeFollowerAudioProcessor_init 0 0 0))
   \<and> samples_per_midi_message (prepareToPlay (EnvelopeFollowerAudioProcessor_init 0 0 0) (- 44100) 512)
       = truncation (- 44100 / midi_message_rate (EnvelopeFollowerAudioProcessor_init 0 0 0))
   \<and> truncation (- 44100 / midi_message_rate (EnvelopeFollowerAudioProcessor_init 0 0 0)) = - 4410"
proof -
  have h: "int_representable (- 44100 / midi_message_rate (EnvelopeFollowerAudioProcessor_init 0 0 0))"
    by (simp add: EnvelopeFollowerAudioProcessor_init_def int_representable_def)
  have v: "truncation (- 44100 / midi_message_rate (EnvelopeFollowerAudioProcessor_init 0 0 0)) = - 4410"
    by (simp add: EnvelopeFollowerAudioProcessor_init_def truncation_def)
  from prepareToPlay_accepts_any_frequency [of "EnvelopeFollowerAudioProcessor_init 0 0 0" "- 44100" 512] h v
  show ?thesis by blast
qed

text \<open>
  \<open>prepareToPlay\<close> on the freshly constructed processor with the sampling frequencies \<open>0\<close>
  and \<open>-44100\<close> does not end in \<open>InvalidConfiguration\<close>; the frequency is stored, and for
  \<open>-44100\<close> the lowpass \<open>theta_c\<close> is the quotient by it and the message period is
  \<open>-4410\<close>.
\<close>

theorem prepareToPlay_nonpositive_frequency_returns:
  "prepareToPlay_result (EnvelopeFollowerAudioProcessor_init 0 0 0) 0 512 \<noteq> Inl InvalidConfiguration
   \<and> prepareToPlay_result (EnvelopeFollowerAudioProcessor_init 0 0 0) (- 44100) 512 \<noteq> Inl InvalidConfiguration
   \<and> SignalProcessor.sampling_frequency
        (signalProcessor (prepareToPlay (EnvelopeFollowerAudioProcessor_init 0 0 0) 0 512)) = 0
   \<and> SignalProcessor.sampling_frequency
        (signalProcessor (prepareToPlay (EnvelopeFollowerAudioProcessor_init 0 0 0) (- 44100) 512)) = - 44100
   \<and> theta_c (lowFilter
        (signalProcessor (prepareToPlay (EnvelopeFollowerAudioProcessor_init 0 0 0) (- 44100) 512)))
       = 2 * 3.1415926535 * 1000 / (- 44100)
   \<and> samples_per_midi_message (prepareToPlay (EnvelopeFollowerAudioProcessor_init 0 0 0) (- 44100) 512)
       = - 4410"
  by (simp add: prepareToPlay_result_def prepareToPlay_unfold setSamplingFrequency_unfold calc_coeff_fields
        EnvelopeFollowerAudioProcessor_init_def SignalProcessor_init_def Filter_init_def Filter_pi_def
        int_cast_def int_representable_def truncation_def)

section \<open>What a prepare call changes\<close>

text \<open>
  C8 (as the source has it). \<open>prepareToPlay\<close> sets both message counters to \<open>0\<close>,
  recomputes the message period (the truncation of \<open>f / midi_message_rate\<close>, where that
  quotient is in the range of \<open>int\<close>), stores the sampling frequency and recomputes \<open>theta_c\<close>,
  \<open>k\<close> and \<open>alpha\<close> of both filters from their cutoff frequency and the new sampling
  frequency. It keeps the previous input and output of both filters, the envelope level and
  the decay coefficient as they are, and it leaves \<open>min_val\<close>, \<open>max_val\<close>, \<open>gain\<close>, both
  cutoff frequencies and the six user parameters unchanged.
\<close>

theorem prepareToPlay_effect:
  "elapsed_since_midi (prepareToPlay p f n) = 0
   \<and> elapsed_since_drawer (prepareToPlay p f n) = 0
   \<and> (int_representable (f / midi_message_rate p) \<longrightarrow>
        samples_per_midi_message (prepareToPlay p f n) = truncation (f / midi_message_rate p))
   \<and> SignalProcessor.sampling_frequency (signalProcessor (prepareToPlay p f n)) = f
   \<and> lowFilter (signalProcessor (prepareToPlay p f n))
       = calc_coeff ((lowFilter (signalProcessor p))\<lparr>Filter.sampling_frequency := f\<rparr>)
   \<and> highFilter (signalProcessor (prepareToPlay p f n))
       = calc_coeff ((highFilter (signalProcessor p))\<lparr>Filter.sampling_frequency := f\<rparr>)
   \<and> prev_input (lowFilter (signalProcessor (prepareToPlay p f n)))
       = prev_input (lowFilter (signalProcessor p))
   \<and> prev_output (lowFilter (signalProcessor (prepareToPlay p f n)))
       = prev_output (lowFilter (signalProcessor p))
   \<and> prev_input (highFilter (signalProcessor (prepareToPlay p f n)))
       = prev_input (highFilter (signalProcessor p))
   \<and> prev_output (highFilter (signalProcessor (prepareToPlay p f n)))
       = prev_output (highFilter (signalProcessor p))
   \<and> current_envelope_position (signalProcessor (prepareToPlay p f n))
       = current_envelope_position (signalProcessor p)
   \<and> decay (signalProcessor (prepareToPlay p f n)) = decay (signalProcessor p)
   \<and> min_val (signalProcessor (prepareToPlay p f n)) = min_val (signalProcessor p)
   \<and> max_val (signalProcessor (prepareToPlay p f n)) = max_val (signalProcessor p)
   \<and> gain (signalProcessor (prepareToPlay p f n)) = gain (signalProcessor p)
   \<and> cutoff_frequency (lowFilter (signalProcessor (prepareToPlay p f n)))
       = cutoff_frequency (lowFilter (signalProcessor p))
   \<and> cutoff_frequency (highFilter (signalProcessor (prepareToPlay p f n)))
       = cutoff_frequency (highFilter (signalProcessor p))
   \<and> gain_user_param (prepareToPlay p f n) = gain_user_param p
   \<and> min_pos_user_param (prepareToPlay p f n) = min_pos_user_param p
   \<and> max_pos_user_param (prepareToPlay p f n) = max_pos_user_param p
   \<and> low_pass_user_param (prepareToPlay p f n) = low_pass_user_param p
   \<and> hi_pass_user_param (prepareToPlay p f n) = hi_pass_user_param p
   \<and> recovery_user_param (prepareToPlay p f n) = recovery_user_param p"
  by (simp add: prepareToPlay_unfold setSamplingFrequency_unfold calc_coeff_fields int_cast_eq)

theorem prepareToPlay_effect_witness:
  "int_representable (48000 / midi_message_rate (EnvelopeFollowerAudioProcessor_init 7 3 5))
   \<and> samples_per_midi_message (prepareToPlay (EnvelopeFollowerAudioProcessor_init 7 3 5) 48000 256)
       = truncation (48000 / midi_message_rate (EnvelopeFollowerAudioProcessor_init 7 3 5))
   \<and> truncation (48000 / midi_message_rate (EnvelopeFollowerAudioProcessor_init 7 3 5)) = 4800"
proof -
  have h: "int_representable (48000 / midi_message_rate (EnvelopeFollowerAudioProcessor_init 7 3 5))"
    by (simp add: EnvelopeFollowerAudioProcessor_init_def int_representable_def)
  have v: "truncation (48000 / midi_message_rate (EnvelopeFollowerAudioProcessor_init 7 3 5)) = 4800"
    by (simp add: EnvelopeFollowerAudioProcessor_init_def truncation_def)
  from prepareToPlay_effect [of "EnvelopeFollowerAudioProcessor_init 7 3 5" 48000 256] h v
  show ?thesis by blast
qed

text \<open>
  After one buffer holding the single sample \<open>1\<close>, the previous input of the lowpass filter
  is \<open>1\<close>, and it is still \<open>1\<close>, not \<open>0\<close>, after a second \<open>prepareToPlay\<close>.
\<close>

theorem prepareToPlay_keeps_filter_memory:
  "prev_input (lowFilter (signalProcessor
      (fst (processBlock (prepareToPlay (EnvelopeFollowerAudioProcessor_init 0 0 0) 44100 512) [[1]])))) = 1
   \<and> prev_input (lowFilter (signalProcessor
      (prepareToPlay
         (fst (processBlock (prepareToPlay (EnvelopeFollowerAudioProcessor_init 0 0 0) 44100 512) [[1]]))
         44100 512))) = 1"
  by (simp add: prepareToPlay_unfold setSamplingFrequency_unfold calc_coeff_fields
        processBlock_def processBlock_sample_def updateMathParams_def Let_def
        takeInSample_unfold updateEnvelopePosition_max calculate_frame
        setMaxValue_def setMinValue_def setGainValue_def setLowpassValue_def setHighpassValue_def
        setRecoveryTimeValue_def set_cutoff_frequency_def
        EnvelopeFollowerAudioProcessor_init_def)

section \<open>Invariants of the signal processor\<close>

text \<open>Every call keeps a non-negative envelope level non-negative.\<close>

lemma sp_apply_level:
  "0 \<le> current_envelope_position s \<Longrightarrow> 0 \<le> current_envelope_position (sp_apply s c)"
proof (cases c)
  case (TakeInSample x)
  have "\<bar>y\<bar> \<le> max a \<bar>y\<bar>" for a y :: real by simp
  then have "0 \<le> max a \<bar>y\<bar>" for a y :: real
    using abs_ge_zero [of y] order_trans by blast
  then show ?thesis
    by (simp add: TakeInSample takeInSample_unfold updateEnvelopePosition_max)
qed (simp_all add: setMinValue_def setMaxValue_def setGainValue_def setLowpassValue_def
       setHighpassValue_def setRecoveryTimeValue_def setSamplingFrequency_unfold Let_def)

lemma sp_run_level:
  "0 \<le> current_envelope_position s \<Longrightarrow> 0 \<le> current_envelope_position (sp_run s cs)"
  by (induction cs arbitrary: s) (simp_all add: sp_apply_level)

text \<open>
  C9. The envelope level is non-negative after any sequence of calls on a freshly constructed
  \<open>SignalProcessor\<close>, whatever the samples and the arguments of the setters: every call
  preserves a non-negative level, and an envelope update, alone or as the last step of
  \<open>takeInSample\<close>, leaves a non-negative level in any state.
\<close>

theorem envelope_level_nonnegative:
  "0 \<le> current_envelope_position (sp_run SignalProcessor_init cs)
   \<and> (\<forall>s c. 0 \<le> current_envelope_position s \<longrightarrow> 0 \<le> current_envelope_position (sp_apply s c))
   \<and> (\<forall>s x. 0 \<le> current_envelope_position (updateEnvelopePosition s x))
   \<and> (\<forall>s x. 0 \<le> current_envelope_position (takeInSample s x))"
proof -
  have "0 \<le> current_envelope_position SignalProcessor_init"
    by (simp add: SignalProcessor_init_def)
  then have a: "0 \<le> current_envelope_position (sp_run SignalProcessor_init cs)"
    by (rule sp_run_level)
  have m: "0 \<le> max a \<bar>y\<bar>" for a y :: real
    using abs_ge_zero [of y] max.cobounded2 [of "\<bar>y\<bar>" a] by linarith
  have b: "0 \<le> current_envelope_position (updateEnvelopePosition s x)" for s x
    by (simp only: updateEnvelopePosition_max) (simp add: m)
  have c: "0 \<le> current_envelope_position (takeInSample s x)" for s x
    by (simp only: takeInSample_unfold b)
  from a b c sp_apply_level show ?thesis by blast
qed

theorem envelope_level_nonnegative_witness:
  "0 \<le> current_envelope_position SignalProcessor_init
   \<and> 0 \<le> current_envelope_position (sp_apply SignalProcessor_init (TakeInSample (- 1)))"
proof -
  have h: "0 \<le> current_envelope_position SignalProcessor_init"
    by (simp add: SignalProcessor_init_def)
  from envelope_level_nonnegative [of "[]"] h show ?thesis by blast
qed

text \<open>The decay coefficient after one call: only \<open>setRecoveryTimeValue\<close> writes it.\<close>

lemma sp_apply_decay:
  "decay (sp_apply s c) = (case c of
      SetRecoveryTimeValue T \<Rightarrow> 2 powr (- 1 / (max T 0.001 * SignalProcessor.sampling_frequency s))
    | _ \<Rightarrow> decay s)"
  by (cases c)
     (simp_all add: takeInSample_unfold updateEnvelopePosition_max setMinValue_def setMaxValue_def
        setGainValue_def setLowpassValue_def setHighpassValue_def setRecoveryTimeValue_def
        setSamplingFrequency_unfold Let_def)

text \<open>
  C10. \<open>setSamplingFrequency\<close> recomputes the coefficients of both filters from the new
  sampling frequency and leaves \<open>decay\<close> as it was: after an earlier
  \<open>setRecoveryTimeValue\<close> it is still the value computed from the sampling frequency of
  that time, and on a freshly constructed processor it is still the default \<open>0.99\<close>. A
  \<open>setRecoveryTimeValue\<close> after the change computes \<open>decay\<close> from the new sampling
  frequency, and no other call changes \<open>decay\<close>.
\<close>

theorem sampling_frequency_leaves_decay:
  "decay (setSamplingFrequency s f) = decay s
   \<and> lowFilter (setSamplingFrequency s f)
       = calc_coeff ((lowFilter s)\<lparr>Filter.sampling_frequency := f\<rparr>)
   \<and> highFilter (setSamplingFrequency s f)
       = calc_coeff ((highFilter s)\<lparr>Filter.sampling_frequency := f\<rparr>)
   \<and> decay (setSamplingFrequency (setRecoveryTimeValue s T) f)
       = 2 powr (- 1 / (max T 0.001 * SignalProcessor.sampling_frequency s))
   \<and> decay (setSamplingFrequency SignalProcessor_init f) = 0.99
   \<and> decay (setRecoveryTimeValue (setSamplingFrequency s f) T)
       = 2 powr (- 1 / (max T 0.001 * f))
   \<and> (\<forall>c. decay (sp_apply s c) \<noteq> decay s \<longrightarrow> (\<exists>T'. c = SetRecoveryTimeValue T'))"
proof -
  have "\<forall>c. decay (sp_apply s c) \<noteq> decay s \<longrightarrow> (\<exists>T'. c = SetRecoveryTimeValue T')"
    by (auto simp: sp_apply_decay split: sp_call.splits)
  then show ?thesis
    by (simp add: setSamplingFrequency_unfold setRecoveryTimeValue_def Let_def SignalProcessor_init_def)
qed

theorem sampling_frequency_leaves_decay_witness:
  "decay (sp_apply (setSamplingFrequency SignalProcessor_init 1) (SetRecoveryTimeValue 1))
     \<noteq> decay (setSamplingFrequency SignalProcessor_init 1)
   \<and> (\<exists>T'. SetRecoveryTimeValue 1 = SetRecoveryTimeValue T')"
proof -
  have h: "decay (sp_apply (setSamplingFrequency SignalProcessor_init 1) (SetRecoveryTimeValue 1))
     \<noteq> decay (setSamplingFrequency SignalProcessor_init 1)"
    by (simp add: setRecoveryTimeValue_def Let_def setSamplingFrequency_unfold
          SignalProcessor_init_def powr_minus_divide)
  from sampling_frequency_leaves_decay [of "setSamplingFrequency SignalProcessor_init 1" 1 1] h
  show ?thesis by blast
qed

end
